theory Spec2Isabelle
  imports Main "HOL-Library.AList"
begin

section \<open>Data model\<close>

text \<open>
  JSON values as the gateway handles them. An object is an association list from
  property names to values. Numbers are never inspected by the code below; they are
  carried as integers.
\<close>

datatype jsval =
    JNull
  | JBool bool
  | JNum int
  | JStr string
  | JArr "jsval list"
  | JObj "(string \<times> jsval) list"

type_synonym jsobject = "(string \<times> jsval) list"

text \<open>
  Instants are epoch milliseconds, as \<open>Date.getTime()\<close> returns them. A
  \<open>TIMESTAMPTZ\<close> column holds the instant itself: writing
  \<open>d.toISOString()\<close> to it and reading it back through \<open>new Date(...)\<close>
  gives \<open>d\<close> again.
\<close>

type_synonym instant = int

text \<open>Table \<open>api_keys\<close> (the columns the functions read or write).\<close>

record api_key_row =
  key_id :: string
  key_professional_id :: string
  key_hash :: string
  key_is_active :: bool
  last_used_at :: "instant option"
  expires_at :: "instant option"
  revoked_at :: "instant option"

text \<open>
  \<open>RateLimitConfig\<close>, and table \<open>api_rate_limit_config\<close> whose rows extend
  it with the scope columns.
\<close>

record RateLimitConfig =
  requests_per_minute :: int
  requests_per_hour :: int
  requests_per_day :: int

record config_row = RateLimitConfig +
  scope :: string
  scope_id :: "string option"
  is_active :: bool

text \<open>Table \<open>api_rate_limit_tracking\<close>.\<close>

record tracking_row =
  track_identifier :: string
  track_identifier_type :: string
  minute_window :: instant
  minute_count :: int
  hour_window :: instant
  hour_count :: int
  day_window :: instant
  day_count :: int
  last_request_at :: instant

text \<open>Table \<open>api_request_logs\<close>: \<open>RequestLogData & ResponseLogData\<close>.\<close>

record log_row =
  request_id :: string
  api_key_id :: "string option"
  professional_id :: "string option"
  endpoint :: string
  http_method :: string
  request_body :: "jsobject option"
  client_ip :: "string option"
  response_status :: int
  response_body :: "jsobject option"
  lead_id :: "string option"
  error_code :: "string option"
  error_message :: "string option"
  processing_time_ms :: int

record database =
  api_keys :: "api_key_row list"
  api_rate_limit_config :: "config_row list"
  api_rate_limit_tracking :: "tracking_row list"
  api_request_logs :: "log_row list"

text \<open>
  The world a handler runs in: the wall clock (its \<open>i\<close>-th reading, and how many
  readings have been taken), the objects allocated so far (an address is an index of
  \<open>heap\<close>), and the tables. Store operations succeed; a failing store is outside
  this model.
\<close>

type_synonym addr = nat

record world =
  clock :: "nat \<Rightarrow> instant"
  reads :: nat
  heap :: "jsobject list"
  db :: database

text \<open>\<open>new Date()\<close> and \<open>Date.now()\<close>: one reading of the wall clock.\<close>

definition Date_now :: "world \<Rightarrow> instant \<times> world" where
  "Date_now w = (clock w (reads w), w\<lparr>reads := Suc (reads w)\<rparr>)"

text \<open>
  \<open>.single()\<close> of the store client: the row when exactly one row matches,
  \<open>null\<close> (with an error) otherwise.
\<close>

definition single :: "'a list \<Rightarrow> 'a option" where
  "single rows = (case rows of [r] \<Rightarrow> Some r | _ \<Rightarrow> None)"

section \<open>Rate limit policy resolution\<close>

definition DEFAULT_LIMITS :: RateLimitConfig where
  "DEFAULT_LIMITS =
     \<lparr>requests_per_minute = 60, requests_per_hour = 1000, requests_per_day = 10000\<rparr>"

text \<open>
  One query of \<open>getRateLimitConfig\<close>: select the three ceilings of the rows with the
  given scope, scope id and \<open>is_active = true\<close>, then \<open>.single()\<close>.
\<close>

definition select_config ::
  "string \<Rightarrow> string option \<Rightarrow> world \<Rightarrow> RateLimitConfig option \<times> world" where
  "select_config sc sid w =
     (map_option RateLimitConfig.truncate
        (single (filter (\<lambda>r. scope r = sc \<and> scope_id r = sid \<and> is_active r)
                   (api_rate_limit_config (db w)))), w)"

definition getRateLimitConfig :: "string \<Rightarrow> string \<Rightarrow> world \<Rightarrow> RateLimitConfig \<times> world" where
  "getRateLimitConfig apiKeyId professionalId w =
     (let (keyConfig, w) = select_config ''api_key'' (Some apiKeyId) w in
      case keyConfig of Some c \<Rightarrow> (c, w) | None \<Rightarrow>
      (let (proConfig, w) = select_config ''professional'' (Some professionalId) w in
       case proConfig of Some c \<Rightarrow> (c, w) | None \<Rightarrow>
       (let (globalConfig, w) = select_config ''global'' None w in
        case globalConfig of Some c \<Rightarrow> (c, w) | None \<Rightarrow> (DEFAULT_LIMITS, w))))"

text \<open>
  The data-model invariant on policies: at most one active policy for each scope kind
  and scope target.
\<close>

definition one_active_policy_per_scope :: "config_row list \<Rightarrow> bool" where
  "one_active_policy_per_scope t =
     list_all (\<lambda>r. length (filter (\<lambda>x. scope x = scope r \<and> scope_id x = scope_id r
                                     \<and> is_active x) t) \<le> 1) t"

text \<open>The first active policy of a scope, read off the table directly.\<close>

definition active_policy :: "config_row list \<Rightarrow> string \<Rightarrow> string option \<Rightarrow> RateLimitConfig option" where
  "active_policy t sc sid =
     map_option RateLimitConfig.truncate
       (find (\<lambda>r. scope r = sc \<and> scope_id r = sid \<and> is_active r) t)"

section \<open>Rate limiter\<close>

datatype window_type = Minute | Hour | Day

text \<open>
  The calendar constructors of \<open>getWindowStart\<close>:
  \<open>new Date(y, m, d, h, min, 0, 0)\<close>, \<open>new Date(y, m, d, h, 0, 0, 0)\<close> and
  \<open>new Date(y, m, d, 0, 0, 0, 0)\<close> on the fields of \<open>now\<close>. The local zone of
  the edge runtime is UTC, where they clear the milliseconds below the minute, the hour
  and the day.
\<close>

definition window_floor :: "window_type \<Rightarrow> instant \<Rightarrow> instant" where
  "window_floor windowType now =
     (case windowType of
        Minute \<Rightarrow> now - now mod 60000
      | Hour \<Rightarrow> now - now mod 3600000
      | Day \<Rightarrow> now - now mod 86400000)"

definition getWindowStart :: "window_type \<Rightarrow> world \<Rightarrow> instant \<times> world" where
  "getWindowStart windowType w =
     (let (now, w) = Date_now w in (window_floor windowType now, w))"

definition getWindowEnd :: "window_type \<Rightarrow> world \<Rightarrow> instant \<times> world" where
  "getWindowEnd windowType w =
     (let (start, w) = getWindowStart windowType w in
      (case windowType of
         Minute \<Rightarrow> start + 60 * 1000
       | Hour \<Rightarrow> start + 60 * 60 * 1000
       | Day \<Rightarrow> start + 24 * 60 * 60 * 1000, w))"

record 'a per_window =
  minute :: 'a
  hour :: 'a
  day :: 'a

record RateLimitResult =
  allowed :: bool
  remaining :: "int per_window"
  reset :: "string per_window"
  retryAfter :: "int option"
  rl_errorCode :: "string option"

text \<open>\<open>Math.ceil(a / b)\<close> for an integer \<open>a\<close> and a positive integer \<open>b\<close>.\<close>

definition Math_ceil_div :: "int \<Rightarrow> int \<Rightarrow> int" where
  "Math_ceil_div a b = - ((- a) div b)"

text \<open>
  \<open>checkRateLimit\<close> awaits the store twice for the tracking row: once to select it
  and once to upsert it. What the call holds between the two is the resolved policy,
  the three window starts and the row it selected.
\<close>

record rl_snapshot =
  config :: RateLimitConfig
  minuteWindow :: instant
  hourWindow :: instant
  dayWindow :: instant
  tracking :: "tracking_row option"

text \<open>The rows of the tracking table for a credential.\<close>

definition tracking_rows :: "string \<Rightarrow> world \<Rightarrow> tracking_row list" where
  "tracking_rows apiKeyId w =
     filter (\<lambda>r. track_identifier r = apiKeyId \<and> track_identifier_type r = ''api_key'')
       (api_rate_limit_tracking (db w))"

text \<open>Up to and including the select of the tracking row.\<close>

definition checkRateLimit_select :: "string \<Rightarrow> string \<Rightarrow> world \<Rightarrow> rl_snapshot \<times> world" where
  "checkRateLimit_select apiKeyId professionalId w =
     (let (cfg, w) = getRateLimitConfig apiKeyId professionalId w;
          (mw, w) = getWindowStart Minute w;
          (hw, w) = getWindowStart Hour w;
          (dw, w) = getWindowStart Day w;
          tr = single (tracking_rows apiKeyId w)
      in (\<lparr>config = cfg, minuteWindow = mw, hourWindow = hw, dayWindow = dw,
           tracking = tr\<rparr>, w))"

text \<open>
  The counts after the logical reset of the windows that have passed, and their
  comparison with the ceilings.
\<close>

definition minuteCount :: "rl_snapshot \<Rightarrow> int" where
  "minuteCount s =
     (case tracking s of
        None \<Rightarrow> 0
      | Some t \<Rightarrow> if minute_window t < minuteWindow s then 0 else minute_count t)"

definition hourCount :: "rl_snapshot \<Rightarrow> int" where
  "hourCount s =
     (case tracking s of
        None \<Rightarrow> 0
      | Some t \<Rightarrow> if hour_window t < hourWindow s then 0 else hour_count t)"

definition dayCount :: "rl_snapshot \<Rightarrow> int" where
  "dayCount s =
     (case tracking s of
        None \<Rightarrow> 0
      | Some t \<Rightarrow> if day_window t < dayWindow s then 0 else day_count t)"

definition minuteExceeded :: "rl_snapshot \<Rightarrow> bool" where
  "minuteExceeded s = (minuteCount s \<ge> requests_per_minute (config s))"

definition hourExceeded :: "rl_snapshot \<Rightarrow> bool" where
  "hourExceeded s = (hourCount s \<ge> requests_per_hour (config s))"

definition dayExceeded :: "rl_snapshot \<Rightarrow> bool" where
  "dayExceeded s = (dayCount s \<ge> requests_per_day (config s))"

text \<open>
  \<open>.upsert(row, {onConflict: 'identifier,identifier_type'})\<close>: the row replaces the
  one with the same identifier and identifier type, or is inserted.
\<close>

definition upsert_tracking :: "tracking_row \<Rightarrow> tracking_row list \<Rightarrow> tracking_row list" where
  "upsert_tracking r t =
     (if list_ex (\<lambda>x. track_identifier x = track_identifier r
                      \<and> track_identifier_type x = track_identifier_type r) t
      then map (\<lambda>x. if track_identifier x = track_identifier r
                         \<and> track_identifier_type x = track_identifier_type r
                      then r else x) t
      else t @ [r])"

text \<open>
  From the comparison with the ceilings to the result. \<open>toISOString\<close> is the
  rendering of an instant as an ISO-8601 string, a parameter here.
\<close>

definition checkRateLimit_decide ::
  "(instant \<Rightarrow> string) \<Rightarrow> string \<Rightarrow> rl_snapshot \<Rightarrow> world \<Rightarrow> RateLimitResult \<times> world" where
  "checkRateLimit_decide toISOString apiKeyId s w =
     (if minuteExceeded s \<or> hourExceeded s \<or> dayExceeded s then
        (let (retry, w) =
               (if dayExceeded s then
                  (let (e, w) = getWindowEnd Day w; (now, w) = Date_now w
                   in (Math_ceil_div (e - now) 1000, w))
                else if hourExceeded s then
                  (let (e, w) = getWindowEnd Hour w; (now, w) = Date_now w
                   in (Math_ceil_div (e - now) 1000, w))
                else
                  (let (e, w) = getWindowEnd Minute w; (now, w) = Date_now w
                   in (Math_ceil_div (e - now) 1000, w)));
             (rm, w) = getWindowEnd Minute w;
             (rh, w) = getWindowEnd Hour w;
             (rd, w) = getWindowEnd Day w
         in (\<lparr>allowed = False,
              remaining = \<lparr>minute = max 0 (requests_per_minute (config s) - minuteCount s),
                           hour = max 0 (requests_per_hour (config s) - hourCount s),
                           day = max 0 (requests_per_day (config s) - dayCount s)\<rparr>,
              reset = \<lparr>minute = toISOString rm, hour = toISOString rh,
                       day = toISOString rd\<rparr>,
              retryAfter = Some retry,
              rl_errorCode = Some ''rate_limit_exceeded''\<rparr>, w))
      else
        (let newMinuteCount = minuteCount s + 1;
             newHourCount = hourCount s + 1;
             newDayCount = dayCount s + 1;
             (last, w) = Date_now w;
             row = \<lparr>track_identifier = apiKeyId, track_identifier_type = ''api_key'',
                    minute_window = minuteWindow s, minute_count = newMinuteCount,
                    hour_window = hourWindow s, hour_count = newHourCount,
                    day_window = dayWindow s, day_count = newDayCount,
                    last_request_at = last\<rparr>;
             w = w\<lparr>db := (db w)\<lparr>api_rate_limit_tracking :=
                        upsert_tracking row (api_rate_limit_tracking (db w))\<rparr>\<rparr>;
             (rm, w) = getWindowEnd Minute w;
             (rh, w) = getWindowEnd Hour w;
             (rd, w) = getWindowEnd Day w
         in (\<lparr>allowed = True,
              remaining = \<lparr>minute = requests_per_minute (config s) - newMinuteCount,
                           hour = requests_per_hour (config s) - newHourCount,
                           day = requests_per_day (config s) - newDayCount\<rparr>,
              reset = \<lparr>minute = toISOString rm, hour = toISOString rh,
                       day = toISOString rd\<rparr>,
              retryAfter = None,
              rl_errorCode = None\<rparr>, w)))"

definition checkRateLimit ::
  "(instant \<Rightarrow> string) \<Rightarrow> string \<Rightarrow> string \<Rightarrow> world \<Rightarrow> RateLimitResult \<times> world" where
  "checkRateLimit toISOString apiKeyId professionalId w =
     (let (s, w) = checkRateLimit_select apiKeyId professionalId w
      in checkRateLimit_decide toISOString apiKeyId s w)"

text \<open>\<open>String(n)\<close> for an integer \<open>n\<close>: its decimal digits.\<close>

fun String_nat :: "nat \<Rightarrow> string" where
  "String_nat n =
     (if n < 10 then [char_of (48 + n)]
      else String_nat (n div 10) @ [char_of (48 + n mod 10)])"

declare String_nat.simps [simp del]

definition String_int :: "int \<Rightarrow> string" where
  "String_int i = (if i < 0 then CHR ''-'' # String_nat (nat (- i)) else String_nat (nat i))"

definition getRateLimitHeaders :: "RateLimitResult \<Rightarrow> (string \<times> string) list" where
  "getRateLimitHeaders result =
     [(''X-RateLimit-Limit-Minute'', ''60''),
      (''X-RateLimit-Remaining-Minute'', String_int (minute (remaining result))),
      (''X-RateLimit-Reset-Minute'', minute (reset result)),
      (''X-RateLimit-Limit-Hour'', ''1000''),
      (''X-RateLimit-Remaining-Hour'', String_int (hour (remaining result))),
      (''X-RateLimit-Reset-Hour'', hour (reset result)),
      (''X-RateLimit-Limit-Day'', ''10000''),
      (''X-RateLimit-Remaining-Day'', String_int (day (remaining result))),
      (''X-RateLimit-Reset-Day'', day (reset result))]"

text \<open>
  The end of the window of an instant, and whether three window starts are the floors
  of one and the same instant (then the minute start lies in the hour and the day that
  the other two name).
\<close>

definition window_end :: "window_type \<Rightarrow> instant \<Rightarrow> instant" where
  "window_end windowType now =
     window_floor windowType now
       + (case windowType of Minute \<Rightarrow> 60000 | Hour \<Rightarrow> 3600000 | Day \<Rightarrow> 86400000)"


definition floors_of_one_instant :: "instant \<Rightarrow> instant \<Rightarrow> instant \<Rightarrow> bool" where
  "floors_of_one_instant mw hw dw =
     (window_floor Minute mw = mw \<and> window_floor Hour mw = hw \<and> window_floor Day mw = dw)"

subsection \<open>Calls in sequence and calls that overlap\<close>

text \<open>\<open>n\<close> calls for one credential, each finished before the next starts.\<close>

fun checkRateLimit_times ::
  "nat \<Rightarrow> (instant \<Rightarrow> string) \<Rightarrow> string \<Rightarrow> string \<Rightarrow> world \<Rightarrow> RateLimitResult list \<times> world" where
  "checkRateLimit_times 0 toISOString apiKeyId professionalId w = ([], w)"
| "checkRateLimit_times (Suc n) toISOString apiKeyId professionalId w =
     (let (r, w) = checkRateLimit toISOString apiKeyId professionalId w;
          (rs, w) = checkRateLimit_times n toISOString apiKeyId professionalId w
      in (r # rs, w))"

text \<open>
  Calls that overlap: every call is suspended while it awaits the store, so another call
  may run between its select and its upsert. A schedule names, step by step, the call
  that runs next; a call's first step takes it through the select, its second step from
  the comparison to its result.
\<close>

datatype rl_task = Pending | Selected rl_snapshot | Returned RateLimitResult

definition rl_step ::
  "(instant \<Rightarrow> string) \<Rightarrow> string \<Rightarrow> string \<Rightarrow> nat \<Rightarrow> rl_task list \<times> world
     \<Rightarrow> rl_task list \<times> world" where
  "rl_step toISOString apiKeyId professionalId i tw =
     (let (ts, w) = tw in
      if i < length ts then
        (case ts ! i of
           Pending \<Rightarrow>
             (let (s, w) = checkRateLimit_select apiKeyId professionalId w
              in (ts[i := Selected s], w))
         | Selected s \<Rightarrow>
             (let (r, w) = checkRateLimit_decide toISOString apiKeyId s w
              in (ts[i := Returned r], w))
         | Returned r \<Rightarrow> (ts, w))
      else (ts, w))"

definition run_schedule ::
  "(instant \<Rightarrow> string) \<Rightarrow> string \<Rightarrow> string \<Rightarrow> nat \<Rightarrow> nat list \<Rightarrow> world
     \<Rightarrow> rl_task list \<times> world" where
  "run_schedule toISOString apiKeyId professionalId n schedule w =
     fold (rl_step toISOString apiKeyId professionalId) schedule (replicate n Pending, w)"

text \<open>The schedule of \<open>n\<close> calls in which no two calls overlap.\<close>

definition sequential_schedule :: "nat \<Rightarrow> nat list" where
  "sequential_schedule n = concat (map (\<lambda>i. [i, i]) [0 ..< n])"

definition count_allowed :: "rl_task list \<Rightarrow> nat" where
  "count_allowed ts =
     length (filter (\<lambda>t. case t of Returned r \<Rightarrow> allowed r | _ \<Rightarrow> False) ts)"

definition count_denied :: "rl_task list \<Rightarrow> nat" where
  "count_denied ts =
     length (filter (\<lambda>t. case t of Returned r \<Rightarrow> \<not> allowed r | _ \<Rightarrow> False) ts)"

text \<open>
  The credential has at most one tracking row, and a call starting now would find each
  of its three effective counts equal to \<open>j\<close>.
\<close>

definition consumed :: "string \<Rightarrow> string \<Rightarrow> int \<Rightarrow> world \<Rightarrow> bool" where
  "consumed apiKeyId professionalId j w =
     (length (tracking_rows apiKeyId w) \<le> 1
      \<and> minuteCount (fst (checkRateLimit_select apiKeyId professionalId w)) = j
      \<and> hourCount (fst (checkRateLimit_select apiKeyId professionalId w)) = j
      \<and> dayCount (fst (checkRateLimit_select apiKeyId professionalId w)) = j)"

text \<open>Every reading of the clock falls in the same minute.\<close>

definition within_one_minute :: "world \<Rightarrow> bool" where
  "within_one_minute w =
     (\<forall>i. window_floor Minute (clock w i) = window_floor Minute (clock w 0))"

section \<open>Key authenticator\<close>

record ApiKeyValidationResult =
  isValid :: bool
  result_professionalId :: "string option"
  result_apiKeyId :: "string option"
  error :: "string option"
  errorCode :: "string option"

text \<open>The format \<open>/^ofair_pk_[A-Za-z0-9]{32}$/\<close>.\<close>

definition alphanumeric :: "char \<Rightarrow> bool" where
  "alphanumeric c =
     (let n = (of_char c :: nat)
      in (65 \<le> n \<and> n \<le> 90) \<or> (97 \<le> n \<and> n \<le> 122) \<or> (48 \<le> n \<and> n \<le> 57))"

definition key_format_ok :: "string \<Rightarrow> bool" where
  "key_format_ok apiKey =
     (take 9 apiKey = ''ofair_pk_'' \<and> length (drop 9 apiKey) = 32
      \<and> list_all alphanumeric (drop 9 apiKey))"

text \<open>
  The lookup \<open>.eq('key_hash', keyHash).single()\<close>, and the two updates
  \<open>.update({...}).eq('id', data.id)\<close>.
\<close>

definition select_api_key :: "string \<Rightarrow> world \<Rightarrow> api_key_row option" where
  "select_api_key keyHash w = single (filter (\<lambda>r. key_hash r = keyHash) (api_keys (db w)))"

definition update_api_keys :: "(api_key_row \<Rightarrow> api_key_row) \<Rightarrow> string \<Rightarrow> world \<Rightarrow> world" where
  "update_api_keys f row_id w =
     w\<lparr>db := (db w)\<lparr>api_keys := map (\<lambda>r. if key_id r = row_id then f r else r)
                                      (api_keys (db w))\<rparr>\<rparr>"

text \<open>
  \<open>validateApiKey\<close>. \<open>hashApiKey\<close>, the SHA-256 digest in hexadecimal, is a
  parameter. The store operations of this model do not throw, so the \<open>catch\<close> branch
  (\<open>internal_error\<close>) has no counterpart here.
\<close>

definition validateApiKey ::
  "(string \<Rightarrow> string) \<Rightarrow> string \<Rightarrow> world \<Rightarrow> ApiKeyValidationResult \<times> world" where
  "validateApiKey hashApiKey apiKey w =
     (if apiKey = [] then
        (\<lparr>isValid = False, result_professionalId = None, result_apiKeyId = None,
          error = Some ''API key is required'', errorCode = Some ''missing_api_key''\<rparr>, w)
      else if \<not> key_format_ok apiKey then
        (\<lparr>isValid = False, result_professionalId = None, result_apiKeyId = None,
          error = Some ''Invalid API key format'',
          errorCode = Some ''invalid_api_key_format''\<rparr>, w)
      else
        (let keyHash = hashApiKey apiKey in
         case select_api_key keyHash w of
           None \<Rightarrow>
             (\<lparr>isValid = False, result_professionalId = None, result_apiKeyId = None,
               error = Some ''Invalid API key'', errorCode = Some ''invalid_api_key''\<rparr>, w)
         | Some data \<Rightarrow>
             if \<not> key_is_active data then
               (\<lparr>isValid = False, result_professionalId = None, result_apiKeyId = None,
                 error = Some ''API key is inactive'',
                 errorCode = Some ''inactive_api_key''\<rparr>, w)
             else if revoked_at data \<noteq> None then
               (\<lparr>isValid = False, result_professionalId = None, result_apiKeyId = None,
                 error = Some ''API key has been revoked'',
                 errorCode = Some ''revoked_api_key''\<rparr>, w)
             else
               (let (expired, w) =
                      (case expires_at data of
                         None \<Rightarrow> (False, w)
                       | Some e \<Rightarrow> (let (now, w) = Date_now w in (e < now, w)))
                in
                if expired then
                  (\<lparr>isValid = False, result_professionalId = None, result_apiKeyId = None,
                    error = Some ''API key has expired'',
                    errorCode = Some ''expired_api_key''\<rparr>,
                   update_api_keys (\<lambda>r. r\<lparr>key_is_active := False\<rparr>) (key_id data) w)
                else
                  (let (now, w) = Date_now w;
                       w = update_api_keys (\<lambda>r. r\<lparr>last_used_at := Some now\<rparr>)
                             (key_id data) w
                   in (\<lparr>isValid = True,
                        result_professionalId = Some (key_professional_id data),
                        result_apiKeyId = Some (key_id data),
                        error = None, errorCode = None\<rparr>, w)))))"

section \<open>Audit logger\<close>

text \<open>
  What a variable of the gateway can hold where the code expects a request body:
  \<open>null\<close>, a reference to an object of the heap, or a JSON value that is not an
  object (the cast of the parsed body is unchecked).
\<close>

datatype jsref = Null | Obj addr | Prim jsval

text \<open>\<open>!v\<close> for a JSON value that is not an object.\<close>

definition falsy :: "jsval \<Rightarrow> bool" where
  "falsy v = (v = JNull \<or> v = JBool False \<or> v = JNum 0 \<or> v = JStr [])"

text \<open>
  The own enumerable properties that \<open>{ ...body }\<close> copies: those of the object, the
  elements of an array or the characters of a string under their indices, none for a
  number or a boolean.
\<close>

definition own_properties :: "jsref \<Rightarrow> world \<Rightarrow> jsobject" where
  "own_properties body w =
     (case body of
        Null \<Rightarrow> []
      | Obj b \<Rightarrow> heap w ! b
      | Prim v \<Rightarrow>
          (case v of
             JStr s \<Rightarrow> zip (map String_nat [0 ..< length s]) (map (\<lambda>c. JStr [c]) s)
           | JArr xs \<Rightarrow> zip (map String_nat [0 ..< length xs]) xs
           | JObj props \<Rightarrow> props
           | _ \<Rightarrow> []))"

text \<open>Allocation of an object, assignment to a property and \<open>delete\<close> of a property.\<close>

definition new_object :: "jsobject \<Rightarrow> world \<Rightarrow> addr \<times> world" where
  "new_object props w = (length (heap w), w\<lparr>heap := heap w @ [props]\<rparr>)"

definition set_property :: "addr \<Rightarrow> string \<Rightarrow> jsval \<Rightarrow> world \<Rightarrow> world" where
  "set_property a k v w = w\<lparr>heap := (heap w)[a := AList.update k v (heap w ! a)]\<rparr>"

definition delete_property :: "addr \<Rightarrow> string \<Rightarrow> world \<Rightarrow> world" where
  "delete_property a k w = w\<lparr>heap := (heap w)[a := AList.delete k (heap w ! a)]\<rparr>"

definition sanitizeRequestBody :: "jsref \<Rightarrow> world \<Rightarrow> jsref \<times> world" where
  "sanitizeRequestBody body w =
     (if body = Null \<or> (case body of Prim v \<Rightarrow> falsy v | _ \<Rightarrow> False) then (Null, w)
      else
        (let (sanitized, w) = new_object (own_properties body w) w;
             w = (case map_of (heap w ! sanitized) ''client_phone'' of
                    Some (JStr phone) \<Rightarrow>
                      if phone \<noteq> [] then
                        set_property sanitized ''client_phone''
                          (JStr (if length phone > 4
                                 then replicate (length phone - 4) CHR ''*''
                                        @ drop (length phone - 4) phone
                                 else ''****'')) w
                      else w
                  | _ \<Rightarrow> w);
             w = delete_property sanitized ''password'' w;
             w = delete_property sanitized ''token'' w;
             w = delete_property sanitized ''api_key'' w
         in (Obj sanitized, w)))"

text \<open>
  The properties of the object that \<open>sanitizeRequestBody\<close> returns, as a function
  of the properties it copied.
\<close>

definition sanitized_properties :: "jsobject \<Rightarrow> jsobject" where
  "sanitized_properties props =
     AList.delete ''api_key'' (AList.delete ''token'' (AList.delete ''password''
       (case map_of props ''client_phone'' of
          Some (JStr phone) \<Rightarrow>
            if phone \<noteq> [] then
              AList.update ''client_phone''
                (JStr (if length phone > 4
                       then replicate (length phone - 4) CHR ''*''
                              @ drop (length phone - 4) phone
                       else ''****'')) props
            else props
        | _ \<Rightarrow> props)))"

record RequestContext =
  requestId :: string
  startTime :: instant
  ctx_apiKeyId :: "string option"
  ctx_professionalId :: "string option"
  ctx_endpoint :: string
  ctx_method :: string
  requestBody :: jsref
  clientIp :: "string option"

text \<open>
  An inbound request: its method, the value of its \<open>X-API-Key\<close> header, the client
  address that \<open>extractClientIp\<close> reads off its headers, the value that
  \<open>req.json()\<close> parses its body to (\<open>None\<close> when it throws), and the identifier
  that \<open>generateRequestId\<close> draws for it.
\<close>

record request =
  req_method :: string
  req_api_key :: "string option"
  req_client_ip :: "string option"
  req_json :: "jsval option"
  req_uuid :: string

definition createRequestContext :: "request \<Rightarrow> string \<Rightarrow> world \<Rightarrow> RequestContext \<times> world" where
  "createRequestContext req ep w =
     (let (now, w) = Date_now w in
      (\<lparr>requestId = req_uuid req, startTime = now, ctx_apiKeyId = None,
        ctx_professionalId = None, ctx_endpoint = ep, ctx_method = req_method req,
        requestBody = Null, clientIp = req_client_ip req\<rparr>, w))"

text \<open>\<open>logRequest\<close>: the insert into \<open>api_request_logs\<close>.\<close>

definition logRequest :: "log_row \<Rightarrow> world \<Rightarrow> world" where
  "logRequest data w =
     w\<lparr>db := (db w)\<lparr>api_request_logs := api_request_logs (db w) @ [data]\<rparr>\<rparr>"

record outcome =
  out_status :: int
  out_body :: "jsobject option"
  out_leadId :: "string option"
  out_errorCode :: "string option"
  out_errorMessage :: "string option"

text \<open>\<open>v || null\<close> for an optional string.\<close>

definition or_null :: "string option \<Rightarrow> string option" where
  "or_null v = (case v of Some s \<Rightarrow> if s = [] then None else Some s | None \<Rightarrow> None)"

text \<open>
  The row that \<open>finalizeRequest\<close> hands to \<open>logRequest\<close>, given the processing
  time and the sanitized body.
\<close>

definition audit_row :: "RequestContext \<Rightarrow> outcome \<Rightarrow> int \<Rightarrow> jsobject option \<Rightarrow> log_row" where
  "audit_row context response processingTimeMs sanitizedBody =
     \<lparr>request_id = requestId context,
      api_key_id = ctx_apiKeyId context,
      professional_id = ctx_professionalId context,
      endpoint = ctx_endpoint context,
      http_method = ctx_method context,
      request_body = sanitizedBody,
      client_ip = clientIp context,
      response_status = out_status response,
      response_body = out_body response,
      lead_id = or_null (out_leadId response),
      error_code = or_null (out_errorCode response),
      error_message = or_null (out_errorMessage response),
      processing_time_ms = processingTimeMs\<rparr>"

definition finalizeRequest :: "RequestContext \<Rightarrow> outcome \<Rightarrow> world \<Rightarrow> world" where
  "finalizeRequest context response w =
     (let (now, w) = Date_now w;
          processingTimeMs = now - startTime context;
          (sanitized, w) = sanitizeRequestBody (requestBody context) w
      in logRequest
           (audit_row context response processingTimeMs
              (case sanitized of Obj a \<Rightarrow> Some (heap w ! a) | _ \<Rightarrow> None)) w)"

section \<open>Gateway pipeline\<close>

text \<open>
  The result of \<open>submitLead\<close>, the external lead submission handler, and the
  collaborators of the pipeline, which are its parameters: whether the storage client
  can be constructed (\<open>getSupabaseClient\<close> throws when its configuration is
  missing), the CORS headers of \<open>cors.ts\<close>, the rendering of instants, the digest
  of keys, and \<open>submitLead\<close> itself, which returns a result or throws an error
  with a message. Of the calls inside the \<open>try\<close> block it is the only one that
  throws here, the store operations of the others being total.
\<close>

record LeadSubmissionResult =
  lead_success :: bool
  leadId :: "string option"
  lead_error :: "string option"
  lead_errorCode :: "string option"
  lead_field :: "string option"

record environment =
  env_configured :: bool
  env_corsHeaders :: "(string \<times> string) list"
  env_toISOString :: "instant \<Rightarrow> string"
  env_hashApiKey :: "string \<Rightarrow> string"
  env_submitLead :: "string \<Rightarrow> jsval \<Rightarrow> string + LeadSubmissionResult"

record http_response =
  resp_status :: int
  resp_headers :: "(string \<times> string) list"
  resp_body :: "jsobject option"

text \<open>\<open>{ ...a, ...b }\<close> on string-keyed objects: the properties of \<open>b\<close> override.\<close>

definition spread :: "(string \<times> 'v) list \<Rightarrow> (string \<times> 'v) list \<Rightarrow> (string \<times> 'v) list" where
  "spread a b = fold (\<lambda>(k, v). AList.update k v) b a"

text \<open>A property whose value may be \<open>undefined\<close>: JSON leaves it out.\<close>

definition opt_str :: "string \<Rightarrow> string option \<Rightarrow> jsobject" where
  "opt_str k v = (case v of Some s \<Rightarrow> [(k, JStr s)] | None \<Rightarrow> [])"

definition opt_num :: "string \<Rightarrow> int option \<Rightarrow> jsobject" where
  "opt_num k v = (case v of Some n \<Rightarrow> [(k, JNum n)] | None \<Rightarrow> [])"

definition extractApiKey :: "request \<Rightarrow> string option" where
  "extractApiKey req = or_null (req_api_key req)"

definition json_headers :: "environment \<Rightarrow> (string \<times> string) list" where
  "json_headers env = spread (env_corsHeaders env) [(''Content-Type'', ''application/json'')]"

definition json_rate_headers :: "environment \<Rightarrow> (string \<times> string) list \<Rightarrow> (string \<times> string) list" where
  "json_rate_headers env rateLimitHeaders =
     spread (spread (env_corsHeaders env) rateLimitHeaders)
       [(''Content-Type'', ''application/json'')]"

text \<open>
  The part of the handler after a successful key validation and an allowed rate limit
  decision: parsing the body, submitting the lead. \<open>Inl\<close> is an error thrown to the
  catch-all of the handler, with the context as it is at that point.
\<close>

definition submit_stage ::
  "environment \<Rightarrow> request \<Rightarrow> RequestContext \<Rightarrow> string \<Rightarrow> (string \<times> string) list \<Rightarrow> world
     \<Rightarrow> (string \<times> RequestContext \<times> world) + (http_response \<times> world)" where
  "submit_stage env req context professional rateLimitHeaders w =
     (case req_json req of
        None \<Rightarrow>
          (let response = [(''error'', JStr ''invalid_json''),
                           (''message'', JStr ''Request body must be valid JSON''),
                           (''request_id'', JStr (requestId context))];
               w = finalizeRequest context
                     \<lparr>out_status = 400, out_body = Some response, out_leadId = None,
                      out_errorCode = Some ''invalid_json'', out_errorMessage = None\<rparr> w
           in Inr (\<lparr>resp_status = 400, resp_headers = json_rate_headers env rateLimitHeaders,
                    resp_body = Some response\<rparr>, w))
      | Some parsed \<Rightarrow>
          (let (ref, w) = (case parsed of
                             JObj props \<Rightarrow> (let (a, w) = new_object props w in (Obj a, w))
                           | JNull \<Rightarrow> (Null, w)
                           | v \<Rightarrow> (Prim v, w));
               context = context\<lparr>requestBody := ref\<rparr>
           in case env_submitLead env professional parsed of
                Inl message \<Rightarrow> Inl (message, context, w)
              | Inr result \<Rightarrow>
                  if \<not> lead_success result then
                    (let response = opt_str ''error'' (lead_errorCode result)
                                    @ opt_str ''message'' (lead_error result)
                                    @ opt_str ''field'' (lead_field result)
                                    @ [(''request_id'', JStr (requestId context))];
                         w = finalizeRequest context
                               \<lparr>out_status = 400, out_body = Some response,
                                out_leadId = None,
                                out_errorCode = lead_errorCode result,
                                out_errorMessage = None\<rparr> w
                     in Inr (\<lparr>resp_status = 400,
                              resp_headers = json_rate_headers env rateLimitHeaders,
                              resp_body = Some response\<rparr>, w))
                  else
                    (let response = [(''success'', JBool True)]
                                    @ opt_str ''lead_id'' (leadId result)
                                    @ [(''request_id'', JStr (requestId context))];
                         w = finalizeRequest context
                               \<lparr>out_status = 201, out_body = Some response,
                                out_leadId = leadId result,
                                out_errorCode = None, out_errorMessage = None\<rparr> w
                     in Inr (\<lparr>resp_status = 201,
                              resp_headers = json_rate_headers env rateLimitHeaders,
                              resp_body = Some response\<rparr>, w))))"

text \<open>
  The body of the \<open>try\<close> block of the handler, from the method check to the rate
  limit decision, continuing with \<open>submit_stage\<close>.
\<close>

definition try_block ::
  "environment \<Rightarrow> request \<Rightarrow> RequestContext \<Rightarrow> world
     \<Rightarrow> (string \<times> RequestContext \<times> world) + (http_response \<times> world)" where
  "try_block env req context w =
     (if req_method req \<noteq> ''POST'' then
        (let response = [(''error'', JStr ''method_not_allowed''),
                         (''message'', JStr ''Only POST requests are allowed''),
                         (''request_id'', JStr (requestId context))];
             w = finalizeRequest context
                   \<lparr>out_status = 405, out_body = Some response, out_leadId = None,
                    out_errorCode = Some ''method_not_allowed'', out_errorMessage = None\<rparr> w
         in Inr (\<lparr>resp_status = 405, resp_headers = json_headers env, resp_body = Some response\<rparr>, w))
      else case extractApiKey req of
        None \<Rightarrow>
          (let response = [(''error'', JStr ''missing_api_key''),
                           (''message'', JStr ''X-API-Key header is required''),
                           (''request_id'', JStr (requestId context))];
               w = finalizeRequest context
                     \<lparr>out_status = 401, out_body = Some response, out_leadId = None,
                      out_errorCode = Some ''missing_api_key'', out_errorMessage = None\<rparr> w
           in Inr (\<lparr>resp_status = 401, resp_headers = json_headers env, resp_body = Some response\<rparr>, w))
      | Some apiKey \<Rightarrow>
          (let (keyValidation, w) = validateApiKey (env_hashApiKey env) apiKey w in
           if \<not> isValid keyValidation then
             (let response = opt_str ''error'' (errorCode keyValidation)
                             @ opt_str ''message'' (error keyValidation)
                             @ [(''request_id'', JStr (requestId context))];
                  w = finalizeRequest context
                        \<lparr>out_status = 401, out_body = Some response, out_leadId = None,
                         out_errorCode = errorCode keyValidation,
                         out_errorMessage = None\<rparr> w
              in Inr (\<lparr>resp_status = 401, resp_headers = json_headers env, resp_body = Some response\<rparr>, w))
           else
             (let context = context\<lparr>ctx_apiKeyId := result_apiKeyId keyValidation,
                                    ctx_professionalId := result_professionalId keyValidation\<rparr>;
                  key = (case result_apiKeyId keyValidation of Some k \<Rightarrow> k | None \<Rightarrow> []);
                  professional = (case result_professionalId keyValidation of
                                    Some p \<Rightarrow> p | None \<Rightarrow> []);
                  (rateLimitResult, w) =
                     checkRateLimit (env_toISOString env) key professional w;
                  rateLimitHeaders = getRateLimitHeaders rateLimitResult
              in
              if \<not> allowed rateLimitResult then
                (let response =
                       [(''error'', JStr ''rate_limit_exceeded''),
                        (''message'', JStr
                           ''Rate limit exceeded. Please wait before making more requests.'')]
                       @ opt_num ''retry_after'' (retryAfter rateLimitResult)
                       @ [(''limits'', JObj
                            [(''minute'', JObj
                               [(''remaining'', JNum (minute (remaining rateLimitResult))),
                                (''reset'', JStr (minute (reset rateLimitResult)))]),
                             (''hour'', JObj
                               [(''remaining'', JNum (hour (remaining rateLimitResult))),
                                (''reset'', JStr (hour (reset rateLimitResult)))]),
                             (''day'', JObj
                               [(''remaining'', JNum (day (remaining rateLimitResult))),
                                (''reset'', JStr (day (reset rateLimitResult)))])]),
                          (''request_id'', JStr (requestId context))];
                     w = finalizeRequest context
                           \<lparr>out_status = 429, out_body = Some response, out_leadId = None,
                            out_errorCode = Some ''rate_limit_exceeded'',
                            out_errorMessage = None\<rparr> w
                 in Inr (\<lparr>resp_status = 429,
                          resp_headers = spread (spread (env_corsHeaders env) rateLimitHeaders)
                                      [(''Content-Type'', ''application/json''),
                                       (''Retry-After'',
                                          (case retryAfter rateLimitResult of
                                             Some n \<Rightarrow> String_int n
                                           | None \<Rightarrow> ''undefined''))],
                          resp_body = Some response\<rparr>, w))
              else submit_stage env req context professional rateLimitHeaders w)))"

text \<open>
  The handler of \<open>submit-lead-api\<close>. \<open>Inl\<close> is an error that leaves the handler:
  the one \<open>getSupabaseClient\<close> throws, before the \<open>try\<close> block.
\<close>

definition handler :: "environment \<Rightarrow> request \<Rightarrow> world \<Rightarrow> string + (http_response \<times> world)" where
  "handler env req w =
     (if req_method req = ''OPTIONS'' then
        Inr (\<lparr>resp_status = 200, resp_headers = env_corsHeaders env, resp_body = None\<rparr>, w)
      else if \<not> env_configured env then Inl ''Server configuration error''
      else
        (let (context, w) = createRequestContext req ''/submit-lead-api'' w in
         case try_block env req context w of
           Inr out \<Rightarrow> Inr out
         | Inl (message, context, w) \<Rightarrow>
             (let response = [(''error'', JStr ''internal_error''),
                              (''message'', JStr ''An unexpected error occurred''),
                              (''request_id'', JStr (requestId context))];
                  w = finalizeRequest context
                        \<lparr>out_status = 500, out_body = Some response, out_leadId = None,
                         out_errorCode = Some ''internal_error'',
                         out_errorMessage = Some message\<rparr> w
              in Inr (\<lparr>resp_status = 500, resp_headers = json_headers env, resp_body = Some response\<rparr>, w))))"

text \<open>
  Between two worlds exactly one audit row was appended, and it carries the given
  request identifier and the status and body of the given response.
\<close>

definition audited :: "world \<Rightarrow> string \<Rightarrow> http_response \<Rightarrow> world \<Rightarrow> bool" where
  "audited w rid resp w' =
     (\<exists>row. api_request_logs (db w') = api_request_logs (db w) @ [row]
            \<and> request_id row = rid
            \<and> response_status row = resp_status resp
            \<and> response_body row = resp_body resp)"

section \<open>Concrete inputs\<close>

text \<open>
  A policy table with a global policy, a policy for tenant \<open>p1\<close> and an inactive
  policy for credential \<open>k1\<close>.
\<close>

definition policy_table :: "config_row list" where
  "policy_table =
     [\<lparr>requests_per_minute = 60, requests_per_hour = 1000, requests_per_day = 10000,
       scope = ''global'', scope_id = None, is_active = True\<rparr>,
      \<lparr>requests_per_minute = 5, requests_per_hour = 50, requests_per_day = 500,
       scope = ''professional'', scope_id = Some ''p1'', is_active = True\<rparr>,
      \<lparr>requests_per_minute = 2, requests_per_hour = 20, requests_per_day = 200,
       scope = ''api_key'', scope_id = Some ''k1'', is_active = False\<rparr>]"

definition policy_world :: world where
  "policy_world =
     \<lparr>clock = (\<lambda>n. 0), reads = 0, heap = [],
      db = \<lparr>api_keys = [], api_rate_limit_config = policy_table,
            api_rate_limit_tracking = [], api_request_logs = []\<rparr>\<rparr>"

text \<open>
  No policy rows, so the default ceilings apply; credential \<open>k1\<close> has used its 60
  requests of the current minute and its 10000 of the current day. The clock starts
  half a second into the second hour of the epoch and advances a millisecond at each
  reading.
\<close>

definition limited_world :: world where
  "limited_world =
     \<lparr>clock = (\<lambda>n. 3600500 + int n), reads = 0, heap = [],
      db = \<lparr>api_keys = [], api_rate_limit_config = [],
            api_rate_limit_tracking =
              [\<lparr>track_identifier = ''k1'', track_identifier_type = ''api_key'',
                minute_window = 3600000, minute_count = 60,
                hour_window = 3600000, hour_count = 60,
                day_window = 0, day_count = 10000,
                last_request_at = 3600400\<rparr>],
            api_request_logs = []\<rparr>\<rparr>"


text \<open>
  No policy rows and no tracking rows; the first clock reading is the last millisecond
  of the first hour of the epoch, the second reading is in the next hour.
\<close>

definition boundary_world :: world where
  "boundary_world =
     \<lparr>clock = (\<lambda>n. 3599999 + int n), reads = 0, heap = [],
      db = \<lparr>api_keys = [], api_rate_limit_config = [],
            api_rate_limit_tracking = [], api_request_logs = []\<rparr>\<rparr>"

text \<open>
  A global policy of two requests per minute and no tracking rows; every reading of
  the clock falls in the first minute of the second hour of the epoch.
\<close>

definition fresh_world :: world where
  "fresh_world =
     \<lparr>clock = (\<lambda>n. 3600000 + int (n mod 60000)), reads = 0, heap = [],
      db = \<lparr>api_keys = [],
            api_rate_limit_config =
              [\<lparr>requests_per_minute = 2, requests_per_hour = 1000,
                requests_per_day = 10000,
                scope = ''global'', scope_id = None, is_active = True\<rparr>],
            api_rate_limit_tracking = [], api_request_logs = []\<rparr>\<rparr>"

text \<open>A global policy of one request per minute and no tracking rows.\<close>

definition one_slot_world :: world where
  "one_slot_world =
     \<lparr>clock = (\<lambda>n. 3600500 + int n), reads = 0, heap = [],
      db = \<lparr>api_keys = [],
            api_rate_limit_config =
              [\<lparr>requests_per_minute = 1, requests_per_hour = 1000,
                requests_per_day = 10000,
                scope = ''global'', scope_id = None, is_active = True\<rparr>],
            api_rate_limit_tracking = [], api_request_logs = []\<rparr>\<rparr>"

text \<open>
  Four credentials, stored under the reversed key as a stand-in for its digest: an
  expired one, an inactive one that is also revoked, a revoked one that is also
  expired, and a good one. The clock reads 5000 and advances a millisecond at each
  reading.
\<close>

definition expired_key :: string where
  "expired_key = ''ofair_pk_ABCDEFGHIJKLMNOPQRSTUVWXYZ012345''"

definition inactive_key :: string where
  "inactive_key = ''ofair_pk_abcdefghijklmnopqrstuvwxyz012345''"

definition revoked_key :: string where
  "revoked_key = ''ofair_pk_ABCDEFGHIJKLMNOPQRSTUVWXYZ678901''"

definition good_key :: string where
  "good_key = ''ofair_pk_abcdefghijklmnopqrstuvwxyz678901''"

definition keys_world :: world where
  "keys_world =
     \<lparr>clock = (\<lambda>n. 5000 + int n), reads = 0, heap = [],
      db = \<lparr>api_keys =
              [\<lparr>key_id = ''id1'', key_professional_id = ''p1'', key_hash = rev expired_key,
                key_is_active = True, last_used_at = None, expires_at = Some 4000,
                revoked_at = None\<rparr>,
               \<lparr>key_id = ''id2'', key_professional_id = ''p1'', key_hash = rev inactive_key,
                key_is_active = False, last_used_at = None, expires_at = None,
                revoked_at = Some 3000\<rparr>,
               \<lparr>key_id = ''id3'', key_professional_id = ''p2'', key_hash = rev revoked_key,
                key_is_active = True, last_used_at = None, expires_at = Some 4000,
                revoked_at = Some 3000\<rparr>,
               \<lparr>key_id = ''id4'', key_professional_id = ''p2'', key_hash = rev good_key,
                key_is_active = True, last_used_at = None, expires_at = Some 9000,
                revoked_at = None\<rparr>],
            api_rate_limit_config = [],
            api_rate_limit_tracking = [], api_request_logs = []\<rparr>\<rparr>"

text \<open>
  A heap with three request bodies: one with a ten-digit phone number, a token and a
  name, one with a three-character phone value, and one with a password.
\<close>

definition bodies_world :: world where
  "bodies_world =
     \<lparr>clock = (\<lambda>n. 5000 + int n), reads = 0,
      heap = [[(''client_name'', JStr ''Dana''), (''client_phone'', JStr ''0501234567''),
               (''token'', JStr ''secret''), (''budget'', JNum 1200)],
              [(''client_phone'', JStr ''123'')],
              [(''password'', JStr ''hunter2''), (''api_key'', JStr ''k'')]],
      db = \<lparr>api_keys = [], api_rate_limit_config = [],
            api_rate_limit_tracking = [], api_request_logs = []\<rparr>\<rparr>"

text \<open>
  A configured environment whose lead handler throws, a \<open>POST\<close> request without a
  key, and a preflight request.
\<close>

definition test_env :: environment where
  "test_env =
     \<lparr>env_configured = True,
      env_corsHeaders = [(''Access-Control-Allow-Origin'', ''*'')],
      env_toISOString = String_int,
      env_hashApiKey = rev,
      env_submitLead = (\<lambda>professional parsed. Inl ''fetch failed'')\<rparr>"

definition no_key_request :: request where
  "no_key_request =
     \<lparr>req_method = ''POST'', req_api_key = None, req_client_ip = Some ''203.0.113.7'',
      req_json = Some (JObj [(''client_phone'', JStr ''0501234567'')]),
      req_uuid = ''7c9e6679-7425-40de-944b-e07fc1f90ae7''\<rparr>"

definition options_request :: request where
  "options_request =
     \<lparr>req_method = ''OPTIONS'', req_api_key = None, req_client_ip = None,
      req_json = None, req_uuid = ''16fd2706-8baf-433b-82eb-8c7fada847da''\<rparr>"

text \<open>A \<open>POST\<close> request with the good key and a body that is a JSON object.\<close>

definition throwing_request :: request where
  "throwing_request =
     \<lparr>req_method = ''POST'', req_api_key = Some good_key,
      req_client_ip = Some ''203.0.113.7'',
      req_json = Some (JObj [(''client_phone'', JStr ''0501234567''),
                             (''token'', JStr ''x'')]),
      req_uuid = ''7c9e6679-7425-40de-944b-e07fc1f90ae7''\<rparr>"

text \<open>A well-formed key that no row stores.\<close>

definition unknown_key :: string where
  "unknown_key = ''ofair_pk_00000000000000000000000000000000''"

text \<open>A \<open>POST\<close> request that presents the given key.\<close>

definition key_request :: "string \<Rightarrow> request" where
  "key_request k =
     \<lparr>req_method = ''POST'', req_api_key = Some k, req_client_ip = None,
      req_json = None, req_uuid = ''0b0e7a3c-5b1f-4c59-9d6e-2f1f6f0c9a11''\<rparr>"

section \<open>Verified properties\<close>

subsection \<open>Policy resolution\<close>

lemma single_filter_find:
  "length (filter P t) \<le> 1 \<Longrightarrow> single (filter P t) = find P t"
proof (induction t)
  case Nil
  show ?case by (simp add: single_def)
next
  case (Cons x t)
  show ?case
  proof (cases "P x")
    case True
    with Cons.prems have "filter P t = []" by simp
    with True show ?thesis by (simp add: single_def)
  next
    case False
    with Cons show ?thesis by simp
  qed
qed

lemma one_active_filter_le:
  assumes "one_active_policy_per_scope t"
  shows "length (filter (\<lambda>r. scope r = sc \<and> scope_id r = sid \<and> is_active r) t) \<le> 1"
proof (cases "filter (\<lambda>r. scope r = sc \<and> scope_id r = sid \<and> is_active r) t")
  case Nil
  then show ?thesis by simp
next
  case (Cons r rs)
  then have "r \<in> set (filter (\<lambda>r. scope r = sc \<and> scope_id r = sid \<and> is_active r) t)"
    by simp
  then have r: "r \<in> set t" "scope r = sc" "scope_id r = sid" by auto
  from assms r(1)
  have "length (filter (\<lambda>x. scope x = scope r \<and> scope_id x = scope_id r \<and> is_active x) t) \<le> 1"
    by (simp add: one_active_policy_per_scope_def list_all_iff)
  with r show ?thesis by simp
qed

lemma select_config_active_policy:
  assumes "one_active_policy_per_scope (api_rate_limit_config (db w))"
  shows "select_config sc sid w = (active_policy (api_rate_limit_config (db w)) sc sid, w)"
proof -
  have "single (filter (\<lambda>r. scope r = sc \<and> scope_id r = sid \<and> is_active r)
                  (api_rate_limit_config (db w)))
        = find (\<lambda>r. scope r = sc \<and> scope_id r = sid \<and> is_active r)
            (api_rate_limit_config (db w))"
    by (rule single_filter_find [OF one_active_filter_le [OF assms]])
  then show ?thesis by (simp add: select_config_def active_policy_def)
qed

text \<open>
  Claim C4. On a policy table with at most one active policy per scope kind and scope
  target, \<open>getRateLimitConfig\<close> returns the active policy scoped to the credential;
  if there is none, the active policy scoped to the tenant; if there is none, the
  active global policy; if there is none, the default of 60 per minute, 1000 per hour
  and 10000 per day. It returns the world as it received it: nothing is written.
\<close>

theorem getRateLimitConfig_first_match:
  assumes "one_active_policy_per_scope (api_rate_limit_config (db w))"
  shows "getRateLimitConfig apiKeyId professionalId w =
           (case active_policy (api_rate_limit_config (db w)) ''api_key'' (Some apiKeyId) of
              Some c \<Rightarrow> c
            | None \<Rightarrow>
               (case active_policy (api_rate_limit_config (db w)) ''professional''
                       (Some professionalId) of
                  Some c \<Rightarrow> c
                | None \<Rightarrow>
                   (case active_policy (api_rate_limit_config (db w)) ''global'' None of
                      Some c \<Rightarrow> c
                    | None \<Rightarrow>
                       \<lparr>requests_per_minute = 60, requests_per_hour = 1000,
                        requests_per_day = 10000\<rparr>)), w)"
  using assms
  by (simp add: getRateLimitConfig_def select_config_active_policy DEFAULT_LIMITS_def
      split: option.splits)

theorem getRateLimitConfig_first_match_witness:
  "one_active_policy_per_scope (api_rate_limit_config (db policy_world)) \<and>
   getRateLimitConfig ''k1'' ''p1'' policy_world =
     (\<lparr>requests_per_minute = 5, requests_per_hour = 50, requests_per_day = 500\<rparr>,
      policy_world)"
proof -
  have t: "api_rate_limit_config (db policy_world) = policy_table"
    by (simp add: policy_world_def)
  have inv: "one_active_policy_per_scope (api_rate_limit_config (db policy_world))"
    unfolding t by (simp add: one_active_policy_per_scope_def policy_table_def)
  show ?thesis
    using inv getRateLimitConfig_first_match [OF inv, of "''k1''" "''p1''"]
    unfolding t
    by (simp add: active_policy_def policy_table_def RateLimitConfig.truncate_def)
qed

subsection \<open>Rate limiter: one call\<close>

lemma getRateLimitConfig_world: "snd (getRateLimitConfig k p w) = w"
  by (simp add: getRateLimitConfig_def select_config_def split: option.splits)

lemma getRateLimitConfig_table:
  "api_rate_limit_config (db w') = api_rate_limit_config (db w) \<Longrightarrow>
   fst (getRateLimitConfig k p w') = fst (getRateLimitConfig k p w)"
  by (simp add: getRateLimitConfig_def select_config_def split: option.splits)

lemma getWindowStart_eq:
  "getWindowStart wt w = (window_floor wt (clock w (reads w)), w\<lparr>reads := Suc (reads w)\<rparr>)"
  by (simp add: getWindowStart_def Date_now_def)

lemma getWindowEnd_eq:
  "getWindowEnd wt w = (window_end wt (clock w (reads w)), w\<lparr>reads := Suc (reads w)\<rparr>)"
  by (cases wt) (simp_all add: getWindowEnd_def getWindowStart_eq window_end_def)

lemma checkRateLimit_select_eq:
  "checkRateLimit_select k p w =
     (\<lparr>config = fst (getRateLimitConfig k p w),
       minuteWindow = window_floor Minute (clock w (reads w)),
       hourWindow = window_floor Hour (clock w (reads w + 1)),
       dayWindow = window_floor Day (clock w (reads w + 2)),
       tracking = single (tracking_rows k w)\<rparr>,
      w\<lparr>reads := reads w + 3\<rparr>)"
proof -
  obtain c where c: "getRateLimitConfig k p w = (c, w)"
    using getRateLimitConfig_world [of k p w] by (cases "getRateLimitConfig k p w") simp
  show ?thesis
    by (simp add: checkRateLimit_select_def c getWindowStart_eq tracking_rows_def
        eval_nat_numeral)
qed

lemma checkRateLimit_decide_denied:
  assumes "minuteExceeded s \<or> hourExceeded s \<or> dayExceeded s"
  shows "checkRateLimit_decide toISOString k s w =
     (\<lparr>allowed = False,
       remaining = \<lparr>minute = max 0 (requests_per_minute (config s) - minuteCount s),
                    hour = max 0 (requests_per_hour (config s) - hourCount s),
                    day = max 0 (requests_per_day (config s) - dayCount s)\<rparr>,
       reset = \<lparr>minute = toISOString (window_end Minute (clock w (reads w + 2))),
                hour = toISOString (window_end Hour (clock w (reads w + 3))),
                day = toISOString (window_end Day (clock w (reads w + 4)))\<rparr>,
       retryAfter = Some (Math_ceil_div
          (window_end (if dayExceeded s then Day else if hourExceeded s then Hour else Minute)
             (clock w (reads w)) - clock w (reads w + 1)) 1000),
       rl_errorCode = Some ''rate_limit_exceeded''\<rparr>,
      w\<lparr>reads := reads w + 5\<rparr>)"
  using assms
  by (simp add: checkRateLimit_decide_def getWindowEnd_eq Date_now_def Let_def eval_nat_numeral)

lemma checkRateLimit_decide_allowed:
  assumes "\<not> minuteExceeded s" "\<not> hourExceeded s" "\<not> dayExceeded s"
  shows "checkRateLimit_decide toISOString k s w =
     (\<lparr>allowed = True,
       remaining = \<lparr>minute = requests_per_minute (config s) - (minuteCount s + 1),
                    hour = requests_per_hour (config s) - (hourCount s + 1),
                    day = requests_per_day (config s) - (dayCount s + 1)\<rparr>,
       reset = \<lparr>minute = toISOString (window_end Minute (clock w (reads w + 1))),
                hour = toISOString (window_end Hour (clock w (reads w + 2))),
                day = toISOString (window_end Day (clock w (reads w + 3)))\<rparr>,
       retryAfter = None,
       rl_errorCode = None\<rparr>,
      w\<lparr>reads := reads w + 4,
        db := (db w)\<lparr>api_rate_limit_tracking :=
          upsert_tracking
            \<lparr>track_identifier = k, track_identifier_type = ''api_key'',
             minute_window = minuteWindow s, minute_count = minuteCount s + 1,
             hour_window = hourWindow s, hour_count = hourCount s + 1,
             day_window = dayWindow s, day_count = dayCount s + 1,
             last_request_at = clock w (reads w)\<rparr>
            (api_rate_limit_tracking (db w))\<rparr>\<rparr>)"
  using assms
  by (simp add: checkRateLimit_decide_def getWindowEnd_eq Date_now_def Let_def eval_nat_numeral)

lemma checkRateLimit_unfold:
  "checkRateLimit toISOString k p w =
     checkRateLimit_decide toISOString k (fst (checkRateLimit_select k p w))
       (w\<lparr>reads := reads w + 3\<rparr>)"
  by (simp add: checkRateLimit_def checkRateLimit_select_eq)

lemma limited_world_select:
  "fst (checkRateLimit_select ''k1'' ''p1'' limited_world) =
     \<lparr>config = DEFAULT_LIMITS, minuteWindow = 3600000, hourWindow = 3600000, dayWindow = 0,
      tracking = Some \<lparr>track_identifier = ''k1'', track_identifier_type = ''api_key'',
                minute_window = 3600000, minute_count = 60,
                hour_window = 3600000, hour_count = 60,
                day_window = 0, day_count = 10000,
                last_request_at = 3600400\<rparr>\<rparr>"
  by (simp add: checkRateLimit_select_eq getRateLimitConfig_def select_config_def single_def
      tracking_rows_def window_floor_def limited_world_def)

text \<open>
  Claim C3. When a call finds any effective count at or above its ceiling, it returns
  a denial, every table is as it was before the call (no counter is incremented, the
  tracking row is untouched), and each remaining quota it reports is at least zero.
\<close>

theorem checkRateLimit_denied_no_increment:
  assumes "s = fst (checkRateLimit_select apiKeyId professionalId w)"
      and "minuteExceeded s \<or> hourExceeded s \<or> dayExceeded s"
  shows "\<not> allowed (fst (checkRateLimit toISOString apiKeyId professionalId w))
       \<and> db (snd (checkRateLimit toISOString apiKeyId professionalId w)) = db w
       \<and> 0 \<le> minute (remaining (fst (checkRateLimit toISOString apiKeyId professionalId w)))
       \<and> 0 \<le> hour (remaining (fst (checkRateLimit toISOString apiKeyId professionalId w)))
       \<and> 0 \<le> day (remaining (fst (checkRateLimit toISOString apiKeyId professionalId w)))"
  using assms by (simp add: checkRateLimit_unfold checkRateLimit_decide_denied)

theorem checkRateLimit_denied_no_increment_witness:
  "minuteExceeded (fst (checkRateLimit_select ''k1'' ''p1'' limited_world))
   \<and> \<not> allowed (fst (checkRateLimit String_int ''k1'' ''p1'' limited_world))
   \<and> db (snd (checkRateLimit String_int ''k1'' ''p1'' limited_world)) = db limited_world
   \<and> minute (remaining (fst (checkRateLimit String_int ''k1'' ''p1'' limited_world))) = 0"
proof -
  have ex: "minuteExceeded (fst (checkRateLimit_select ''k1'' ''p1'' limited_world))"
    by (simp add: limited_world_select minuteExceeded_def minuteCount_def DEFAULT_LIMITS_def)
  have r: "minute (remaining (fst (checkRateLimit String_int ''k1'' ''p1'' limited_world))) = 0"
    using ex
    by (simp add: checkRateLimit_unfold checkRateLimit_decide_denied)
       (simp add: limited_world_select minuteCount_def DEFAULT_LIMITS_def)
  from checkRateLimit_denied_no_increment [OF refl disjI1, OF ex, of String_int] ex r
  show ?thesis by simp
qed









subsection \<open>Window starts\<close>

lemma window_floor_mult:
  "window_floor Minute a = 60000 * (a div 60000)"
  "window_floor Hour a = 3600000 * (a div 3600000)"
  "window_floor Day a = 86400000 * (a div 86400000)"
  by (simp_all add: window_floor_def minus_mod_eq_mult_div)

lemma div_hour_of_minute: "(a::int) div 3600000 = (a div 60000) div 60"
  using zdiv_zmult2_eq [of 60 a 60000] by simp

lemma div_day_of_minute: "(a::int) div 86400000 = (a div 60000) div 1440"
  using zdiv_zmult2_eq [of 1440 a 60000] by simp

lemma floor_of_minute_floor:
  "window_floor Minute (window_floor Minute a) = window_floor Minute a"
  "window_floor Hour (window_floor Minute a) = window_floor Hour a"
  "window_floor Day (window_floor Minute a) = window_floor Day a"
proof -
  have m: "(60000 * (a div 60000)) div 60000 = a div 60000" by simp
  show "window_floor Minute (window_floor Minute a) = window_floor Minute a"
    by (simp add: window_floor_mult)
  show "window_floor Hour (window_floor Minute a) = window_floor Hour a"
    unfolding window_floor_mult
    using div_hour_of_minute [of "60000 * (a div 60000)"] div_hour_of_minute [of a] m
    by simp
  show "window_floor Day (window_floor Minute a) = window_floor Day a"
    unfolding window_floor_mult
    using div_day_of_minute [of "60000 * (a div 60000)"] div_day_of_minute [of a] m
    by simp
qed

lemma floors_of_one_instant_iff:
  "floors_of_one_instant mw hw dw \<longleftrightarrow>
     (\<exists>now. mw = window_floor Minute now \<and> hw = window_floor Hour now
            \<and> dw = window_floor Day now)"
proof
  assume "floors_of_one_instant mw hw dw"
  then have "mw = window_floor Minute mw \<and> hw = window_floor Hour mw
               \<and> dw = window_floor Day mw"
    by (simp add: floors_of_one_instant_def)
  then show "\<exists>now. mw = window_floor Minute now \<and> hw = window_floor Hour now
                  \<and> dw = window_floor Day now" ..
next
  assume "\<exists>now. mw = window_floor Minute now \<and> hw = window_floor Hour now
                \<and> dw = window_floor Day now"
  then show "floors_of_one_instant mw hw dw"
    by (auto simp: floors_of_one_instant_def floor_of_minute_floor)
qed

text \<open>
  Claim C9, as amended. Each of the three window starts of a decision is the floor of
  a clock reading of its own: the minute start of the first reading, the hour start of
  the second, the day start of the third. When the three readings fall in the same
  minute, the three starts are the floors of one instant.
\<close>

theorem checkRateLimit_windows_per_reading:
  assumes "s = fst (checkRateLimit_select apiKeyId professionalId w)"
  shows "minuteWindow s = window_floor Minute (clock w (reads w))
       \<and> hourWindow s = window_floor Hour (clock w (reads w + 1))
       \<and> dayWindow s = window_floor Day (clock w (reads w + 2))
       \<and> (window_floor Minute (clock w (reads w + 1)) = window_floor Minute (clock w (reads w))
            \<and> window_floor Minute (clock w (reads w + 2)) = window_floor Minute (clock w (reads w))
          \<longrightarrow> floors_of_one_instant (minuteWindow s) (hourWindow s) (dayWindow s))"
proof -
  have w: "minuteWindow s = window_floor Minute (clock w (reads w))"
          "hourWindow s = window_floor Hour (clock w (reads w + 1))"
          "dayWindow s = window_floor Day (clock w (reads w + 2))"
    using assms by (simp_all add: checkRateLimit_select_eq)
  have "floors_of_one_instant (minuteWindow s) (hourWindow s) (dayWindow s)"
    if h: "window_floor Minute (clock w (reads w + 1)) = window_floor Minute (clock w (reads w))"
      and d: "window_floor Minute (clock w (reads w + 2)) = window_floor Minute (clock w (reads w))"
  proof -
    have "window_floor Hour (clock w (reads w + 1))
            = window_floor Hour (window_floor Minute (clock w (reads w)))"
      using floor_of_minute_floor(2) [of "clock w (reads w + 1)"] h by simp
    moreover have "window_floor Day (clock w (reads w + 2))
            = window_floor Day (window_floor Minute (clock w (reads w)))"
      using floor_of_minute_floor(3) [of "clock w (reads w + 2)"] d by simp
    ultimately show ?thesis
      unfolding floors_of_one_instant_def w by (simp add: floor_of_minute_floor)
  qed
  with w show ?thesis by blast
qed

theorem checkRateLimit_windows_per_reading_witness:
  "window_floor Minute (clock limited_world (reads limited_world + 1))
     = window_floor Minute (clock limited_world (reads limited_world))
   \<and> window_floor Minute (clock limited_world (reads limited_world + 2))
     = window_floor Minute (clock limited_world (reads limited_world))
   \<and> floors_of_one_instant
        (minuteWindow (fst (checkRateLimit_select ''k1'' ''p1'' limited_world)))
        (hourWindow (fst (checkRateLimit_select ''k1'' ''p1'' limited_world)))
        (dayWindow (fst (checkRateLimit_select ''k1'' ''p1'' limited_world)))"
proof -
  have c: "window_floor Minute (clock limited_world (reads limited_world + 1))
             = window_floor Minute (clock limited_world (reads limited_world))"
          "window_floor Minute (clock limited_world (reads limited_world + 2))
             = window_floor Minute (clock limited_world (reads limited_world))"
    by (simp_all add: limited_world_def window_floor_def)
  from checkRateLimit_windows_per_reading [OF refl, of "''k1''" "''p1''" limited_world] c
  show ?thesis by blast
qed

text \<open>
  The claim as stated fails when the clock passes a boundary between the readings:
  here the minute window starts at 0:59:00 and the hour window at 1:00:00, which are
  not the floors of any one instant.
\<close>

theorem checkRateLimit_windows_counterexample:
  "minuteWindow (fst (checkRateLimit_select ''k1'' ''p1'' boundary_world)) = 3540000
   \<and> hourWindow (fst (checkRateLimit_select ''k1'' ''p1'' boundary_world)) = 3600000
   \<and> \<not> floors_of_one_instant
        (minuteWindow (fst (checkRateLimit_select ''k1'' ''p1'' boundary_world)))
        (hourWindow (fst (checkRateLimit_select ''k1'' ''p1'' boundary_world)))
        (dayWindow (fst (checkRateLimit_select ''k1'' ''p1'' boundary_world)))"
proof -
  have c: "clock boundary_world (reads boundary_world) = 3599999"
          "clock boundary_world (reads boundary_world + 1) = 3600000"
          "clock boundary_world (reads boundary_world + 2) = 3600001"
    by (simp_all add: boundary_world_def)
  show ?thesis
    unfolding checkRateLimit_select_eq fst_conv rl_snapshot.simps c
    by (simp add: floors_of_one_instant_def window_floor_def)
qed

subsection \<open>Rate limiter: calls in sequence\<close>

lemma select_within_one_minute:
  assumes "within_one_minute w"
  shows "fst (checkRateLimit_select k p w) =
     \<lparr>config = fst (getRateLimitConfig k p w),
      minuteWindow = window_floor Minute (clock w 0),
      hourWindow = window_floor Hour (clock w 0),
      dayWindow = window_floor Day (clock w 0),
      tracking = single (tracking_rows k w)\<rparr>"
proof -
  have m: "window_floor Minute (clock w i) = window_floor Minute (clock w 0)" for i
    using assms unfolding within_one_minute_def by (rule spec)
  have h: "window_floor Hour (clock w i) = window_floor Hour (clock w 0)" for i
  proof -
    have "window_floor Hour (clock w i) = window_floor Hour (window_floor Minute (clock w i))"
      by (simp only: floor_of_minute_floor)
    also have "\<dots> = window_floor Hour (window_floor Minute (clock w 0))"
      by (simp only: m [of i])
    also have "\<dots> = window_floor Hour (clock w 0)"
      by (simp only: floor_of_minute_floor)
    finally show ?thesis .
  qed
  have d: "window_floor Day (clock w i) = window_floor Day (clock w 0)" for i
  proof -
    have "window_floor Day (clock w i) = window_floor Day (window_floor Minute (clock w i))"
      by (simp only: floor_of_minute_floor)
    also have "\<dots> = window_floor Day (window_floor Minute (clock w 0))"
      by (simp only: m [of i])
    also have "\<dots> = window_floor Day (clock w 0)"
      by (simp only: floor_of_minute_floor)
    finally show ?thesis .
  qed
  show ?thesis
    unfolding checkRateLimit_select_eq fst_conv
    by (simp only: m [of "reads w"] h [of "reads w + 1"] d [of "reads w + 2"])
qed

lemma filter_upsert_tracking:
  assumes len: "length (filter (\<lambda>x. track_identifier x = k
                                    \<and> track_identifier_type x = ''api_key'') t) \<le> 1"
      and r: "track_identifier r = k" "track_identifier_type r = ''api_key''"
  shows "filter (\<lambda>x. track_identifier x = k \<and> track_identifier_type x = ''api_key'')
           (upsert_tracking r t) = [r]"
proof -
  let ?P = "\<lambda>x. track_identifier x = k \<and> track_identifier_type x = ''api_key''"
  have mp: "filter ?P (map (\<lambda>x. if ?P x then r else x) u) = map (\<lambda>_. r) (filter ?P u)" for u
    using r by (induction u) simp_all
  show ?thesis
  proof (cases "filter ?P t")
    case Nil
    then have "\<not> list_ex ?P t" by (simp add: list_ex_iff filter_empty_conv)
    then have "upsert_tracking r t = t @ [r]" using r by (simp add: upsert_tracking_def)
    with Nil r show ?thesis by simp
  next
    case (Cons a as)
    with len have as: "as = []" by simp
    from Cons have "a \<in> set (filter ?P t)" by simp
    then have "list_ex ?P t" by (auto simp: list_ex_iff)
    then have "upsert_tracking r t = map (\<lambda>x. if ?P x then r else x) t"
      using r by (simp add: upsert_tracking_def)
    then show ?thesis using mp [of t] Cons as by simp
  qed
qed

lemma checkRateLimit_step_allowed:
  assumes inv: "consumed k p j w"
      and fr: "within_one_minute w"
      and lt: "j < requests_per_minute (fst (getRateLimitConfig k p w))"
              "j < requests_per_hour (fst (getRateLimitConfig k p w))"
              "j < requests_per_day (fst (getRateLimitConfig k p w))"
  shows "allowed (fst (checkRateLimit toISOString k p w))
       \<and> consumed k p (j + 1) (snd (checkRateLimit toISOString k p w))
       \<and> clock (snd (checkRateLimit toISOString k p w)) = clock w
       \<and> api_rate_limit_config (db (snd (checkRateLimit toISOString k p w)))
           = api_rate_limit_config (db w)"
proof -
  define s where "s = fst (checkRateLimit_select k p w)"
  have s: "config s = fst (getRateLimitConfig k p w)"
          "minuteWindow s = window_floor Minute (clock w 0)"
          "hourWindow s = window_floor Hour (clock w 0)"
          "dayWindow s = window_floor Day (clock w 0)"
    unfolding s_def by (simp_all add: select_within_one_minute [OF fr])
  have cnt: "minuteCount s = j" "hourCount s = j" "dayCount s = j"
    and len: "length (tracking_rows k w) \<le> 1"
    using inv unfolding s_def consumed_def by simp_all
  have nex: "\<not> minuteExceeded s" "\<not> hourExceeded s" "\<not> dayExceeded s"
    using lt cnt s(1) by (simp_all add: minuteExceeded_def hourExceeded_def dayExceeded_def)
  define row where "row =
     \<lparr>track_identifier = k, track_identifier_type = ''api_key'',
      minute_window = minuteWindow s, minute_count = minuteCount s + 1,
      hour_window = hourWindow s, hour_count = hourCount s + 1,
      day_window = dayWindow s, day_count = dayCount s + 1,
      last_request_at = clock w (reads w + 3)\<rparr>"
  define w' where "w' = snd (checkRateLimit toISOString k p w)"
  have res: "allowed (fst (checkRateLimit toISOString k p w))"
    unfolding checkRateLimit_unfold s_def [symmetric]
    by (simp add: checkRateLimit_decide_allowed [OF nex])
  have w': "clock w' = clock w"
           "api_rate_limit_config (db w') = api_rate_limit_config (db w)"
           "api_rate_limit_tracking (db w')
              = upsert_tracking row (api_rate_limit_tracking (db w))"
    unfolding w'_def checkRateLimit_unfold s_def [symmetric] row_def
    by (simp_all add: checkRateLimit_decide_allowed [OF nex])
  have fr': "within_one_minute w'"
    using fr w'(1) by (simp add: within_one_minute_def)
  have rows: "tracking_rows k w' = [row]"
    unfolding tracking_rows_def w'(3)
    by (rule filter_upsert_tracking)
       (use len in \<open>simp_all add: tracking_rows_def row_def\<close>)
  have cfg': "fst (getRateLimitConfig k p w') = fst (getRateLimitConfig k p w)"
    by (rule getRateLimitConfig_table) (rule w'(2))
  have s': "fst (checkRateLimit_select k p w') = s\<lparr>tracking := Some row\<rparr>"
    unfolding select_within_one_minute [OF fr'] rows cfg' w'(1)
    using s by (simp add: single_def)
  have "consumed k p (j + 1) w'"
    unfolding consumed_def s' rows
    using cnt by (simp add: minuteCount_def hourCount_def dayCount_def row_def)
  with res w' show ?thesis unfolding w'_def by simp
qed

lemma checkRateLimit_step_denied:
  assumes inv: "consumed k p j w"
      and fr: "within_one_minute w"
      and ge: "requests_per_minute (fst (getRateLimitConfig k p w)) \<le> j"
  shows "\<not> allowed (fst (checkRateLimit toISOString k p w))
       \<and> consumed k p j (snd (checkRateLimit toISOString k p w))
       \<and> clock (snd (checkRateLimit toISOString k p w)) = clock w
       \<and> api_rate_limit_config (db (snd (checkRateLimit toISOString k p w)))
           = api_rate_limit_config (db w)"
proof -
  define s where "s = fst (checkRateLimit_select k p w)"
  have cfg: "config s = fst (getRateLimitConfig k p w)"
    unfolding s_def by (simp add: checkRateLimit_select_eq)
  have "minuteCount s = j"
    using inv unfolding s_def consumed_def by simp
  with ge cfg have ex: "minuteExceeded s \<or> hourExceeded s \<or> dayExceeded s"
    by (simp add: minuteExceeded_def)
  define w' where "w' = snd (checkRateLimit toISOString k p w)"
  have res: "\<not> allowed (fst (checkRateLimit toISOString k p w))"
    unfolding checkRateLimit_unfold s_def [symmetric]
    by (simp add: checkRateLimit_decide_denied [OF ex])
  have w': "clock w' = clock w" "db w' = db w"
    unfolding w'_def checkRateLimit_unfold s_def [symmetric]
    by (simp_all add: checkRateLimit_decide_denied [OF ex])
  have fr': "within_one_minute w'"
    using fr w'(1) by (simp add: within_one_minute_def)
  have rows: "tracking_rows k w' = tracking_rows k w"
    by (simp add: tracking_rows_def w'(2))
  have cfg': "fst (getRateLimitConfig k p w') = fst (getRateLimitConfig k p w)"
    by (rule getRateLimitConfig_table) (simp add: w'(2))
  have "fst (checkRateLimit_select k p w') = fst (checkRateLimit_select k p w)"
    unfolding select_within_one_minute [OF fr'] select_within_one_minute [OF fr]
    by (simp add: rows cfg' w'(1))
  then have "consumed k p j w'"
    using inv by (simp add: consumed_def rows)
  with res w' show ?thesis unfolding w'_def by simp
qed


lemma checkRateLimit_times_allowed:
  assumes "consumed k p j w" "within_one_minute w"
      and "j + int n \<le> requests_per_minute (fst (getRateLimitConfig k p w))"
          "j + int n \<le> requests_per_hour (fst (getRateLimitConfig k p w))"
          "j + int n \<le> requests_per_day (fst (getRateLimitConfig k p w))"
  shows "map allowed (fst (checkRateLimit_times n toISOString k p w)) = replicate n True
       \<and> consumed k p (j + int n) (snd (checkRateLimit_times n toISOString k p w))
       \<and> clock (snd (checkRateLimit_times n toISOString k p w)) = clock w
       \<and> api_rate_limit_config (db (snd (checkRateLimit_times n toISOString k p w)))
           = api_rate_limit_config (db w)"
  using assms
proof (induction n arbitrary: j w)
  case 0
  then show ?case by simp
next
  case (Suc n)
  define w1 where "w1 = snd (checkRateLimit toISOString k p w)"
  have step: "allowed (fst (checkRateLimit toISOString k p w))"
             "consumed k p (j + 1) w1" "clock w1 = clock w"
             "api_rate_limit_config (db w1) = api_rate_limit_config (db w)"
    using checkRateLimit_step_allowed [OF Suc.prems(1,2), of toISOString] Suc.prems(3-5)
    unfolding w1_def by simp_all
  have fr1: "within_one_minute w1"
    using Suc.prems(2) step(3) by (simp add: within_one_minute_def)
  have cfg1: "fst (getRateLimitConfig k p w1) = fst (getRateLimitConfig k p w)"
    by (rule getRateLimitConfig_table) (rule step(4))
  have ih: "map allowed (fst (checkRateLimit_times n toISOString k p w1)) = replicate n True"
           "consumed k p (j + 1 + int n) (snd (checkRateLimit_times n toISOString k p w1))"
           "clock (snd (checkRateLimit_times n toISOString k p w1)) = clock w1"
           "api_rate_limit_config (db (snd (checkRateLimit_times n toISOString k p w1)))
              = api_rate_limit_config (db w1)"
    using Suc.IH [OF step(2) fr1] Suc.prems(3-5) unfolding cfg1 by simp_all
  have unf: "checkRateLimit_times (Suc n) toISOString k p w =
               (fst (checkRateLimit toISOString k p w)
                  # fst (checkRateLimit_times n toISOString k p w1),
                snd (checkRateLimit_times n toISOString k p w1))"
    unfolding w1_def by (simp add: case_prod_beta)
  show ?case
    unfolding unf using step ih by (simp add: ac_simps)
qed

lemma checkRateLimit_times_denied:
  assumes "consumed k p j w" "within_one_minute w"
      and "requests_per_minute (fst (getRateLimitConfig k p w)) \<le> j"
  shows "map allowed (fst (checkRateLimit_times n toISOString k p w)) = replicate n False"
  using assms
proof (induction n arbitrary: w)
  case 0
  then show ?case by simp
next
  case (Suc n)
  define w1 where "w1 = snd (checkRateLimit toISOString k p w)"
  have step: "\<not> allowed (fst (checkRateLimit toISOString k p w))"
             "consumed k p j w1" "clock w1 = clock w"
             "api_rate_limit_config (db w1) = api_rate_limit_config (db w)"
    using checkRateLimit_step_denied [OF Suc.prems, of toISOString]
    unfolding w1_def by simp_all
  have fr1: "within_one_minute w1"
    using Suc.prems(2) step(3) by (simp add: within_one_minute_def)
  have cfg1: "fst (getRateLimitConfig k p w1) = fst (getRateLimitConfig k p w)"
    by (rule getRateLimitConfig_table) (rule step(4))
  have ih: "map allowed (fst (checkRateLimit_times n toISOString k p w1)) = replicate n False"
    using Suc.IH [OF step(2) fr1] Suc.prems(3) unfolding cfg1 by simp
  have unf: "checkRateLimit_times (Suc n) toISOString k p w =
               (fst (checkRateLimit toISOString k p w)
                  # fst (checkRateLimit_times n toISOString k p w1),
                snd (checkRateLimit_times n toISOString k p w1))"
    unfolding w1_def by (simp add: case_prod_beta)
  show ?case
    unfolding unf using step ih by simp
qed

lemma checkRateLimit_times_add:
  "checkRateLimit_times (a + b) toISOString k p w =
     (fst (checkRateLimit_times a toISOString k p w)
        @ fst (checkRateLimit_times b toISOString k p
                 (snd (checkRateLimit_times a toISOString k p w))),
      snd (checkRateLimit_times b toISOString k p
             (snd (checkRateLimit_times a toISOString k p w))))"
  by (induction a arbitrary: w) (simp_all add: case_prod_beta)

lemma checkRateLimit_times_exactly_K:
  assumes "consumed apiKeyId professionalId 0 w"
      and "within_one_minute w"
      and "requests_per_minute (fst (getRateLimitConfig apiKeyId professionalId w)) = int K"
      and "int K \<le> requests_per_hour (fst (getRateLimitConfig apiKeyId professionalId w))"
      and "int K \<le> requests_per_day (fst (getRateLimitConfig apiKeyId professionalId w))"
      and "K < N"
  shows "map allowed (fst (checkRateLimit_times N toISOString apiKeyId professionalId w))
           = replicate K True @ replicate (N - K) False"
proof -
  define w1 where "w1 = snd (checkRateLimit_times K toISOString apiKeyId professionalId w)"
  have a: "map allowed (fst (checkRateLimit_times K toISOString apiKeyId professionalId w))
             = replicate K True"
          "consumed apiKeyId professionalId (int K) w1" "clock w1 = clock w"
          "api_rate_limit_config (db w1) = api_rate_limit_config (db w)"
    using checkRateLimit_times_allowed [OF assms(1,2), of K toISOString] assms(3-5)
    unfolding w1_def by simp_all
  have fr1: "within_one_minute w1"
    using assms(2) a(3) by (simp add: within_one_minute_def)
  have cfg1: "fst (getRateLimitConfig apiKeyId professionalId w1)
                = fst (getRateLimitConfig apiKeyId professionalId w)"
    by (rule getRateLimitConfig_table) (rule a(4))
  have b: "map allowed (fst (checkRateLimit_times (N - K) toISOString apiKeyId professionalId w1))
             = replicate (N - K) False"
    by (rule checkRateLimit_times_denied [OF a(2) fr1]) (simp add: cfg1 assms(3))
  have "N = K + (N - K)" using assms(6) by simp
  then have "checkRateLimit_times N toISOString apiKeyId professionalId w
               = checkRateLimit_times (K + (N - K)) toISOString apiKeyId professionalId w"
    by simp
  then show ?thesis
    unfolding checkRateLimit_times_add w1_def [symmetric] using a(1) b by simp
qed

subsection \<open>Rate limiter: witnesses and overlapping calls\<close>

lemma fresh_world_config:
  "fst (getRateLimitConfig ''k1'' ''p1'' fresh_world)
     = \<lparr>requests_per_minute = 2, requests_per_hour = 1000, requests_per_day = 10000\<rparr>"
  by (simp add: getRateLimitConfig_def select_config_def single_def fresh_world_def
      RateLimitConfig.truncate_def)

lemma fresh_world_minute: "within_one_minute fresh_world"
proof -
  have "window_floor Minute (3600000 + int (i mod 60000)) = 3600000" for i :: nat
  proof -
    have "(3600000 + int (i mod 60000)) div 60000 = 60"
      by (simp add: div_pos_pos_trivial)
    then show ?thesis by (simp add: window_floor_mult)
  qed
  moreover have "window_floor Minute 3600000 = 3600000"
    by (simp add: window_floor_def)
  ultimately show ?thesis by (simp add: within_one_minute_def fresh_world_def)
qed

lemma fresh_world_consumed: "consumed ''k1'' ''p1'' 0 fresh_world"
proof -
  have "tracking_rows ''k1'' fresh_world = []"
    by (simp add: tracking_rows_def fresh_world_def)
  then show ?thesis
    by (simp add: consumed_def checkRateLimit_select_eq minuteCount_def hourCount_def
        dayCount_def single_def)
qed

lemma fold_sequential_schedule:
  assumes "length fin = m"
  shows "fold (rl_step toISOString k p) (concat (map (\<lambda>i. [i, i]) [m ..< m + n]))
           (fin @ replicate n Pending, w)
         = (fin @ map Returned (fst (checkRateLimit_times n toISOString k p w)),
            snd (checkRateLimit_times n toISOString k p w))"
  using assms
proof (induction n arbitrary: m fin w)
  case 0
  then show ?case by simp
next
  case (Suc n)
  obtain s w1 where sel: "checkRateLimit_select k p w = (s, w1)"
    by (cases "checkRateLimit_select k p w") simp
  obtain r w2 where dec: "checkRateLimit_decide toISOString k s w1 = (r, w2)"
    by (cases "checkRateLimit_decide toISOString k s w1") simp
  have call: "checkRateLimit toISOString k p w = (r, w2)"
    by (simp add: checkRateLimit_def sel dec)
  have upt: "[m ..< m + Suc n] = m # [Suc m ..< Suc m + n]"
    by (simp add: upt_conv_Cons)
  have step1: "rl_step toISOString k p m (fin @ Pending # replicate n Pending, w)
                 = (fin @ Selected s # replicate n Pending, w1)"
    using Suc.prems list_update_length [of fin Pending "replicate n Pending" "Selected s"]
    by (simp add: rl_step_def sel nth_append)
  have step2: "rl_step toISOString k p m (fin @ Selected s # replicate n Pending, w1)
                 = (fin @ Returned r # replicate n Pending, w2)"
    using Suc.prems
      list_update_length [of fin "Selected s" "replicate n Pending" "Returned r"]
    by (simp add: rl_step_def dec nth_append)
  have ih: "fold (rl_step toISOString k p) (concat (map (\<lambda>i. [i, i]) [Suc m ..< Suc m + n]))
              ((fin @ [Returned r]) @ replicate n Pending, w2)
            = ((fin @ [Returned r]) @ map Returned (fst (checkRateLimit_times n toISOString k p w2)),
               snd (checkRateLimit_times n toISOString k p w2))"
    by (rule Suc.IH) (simp add: Suc.prems)
  have "fold (rl_step toISOString k p) (concat (map (\<lambda>i. [i, i]) [m ..< m + Suc n]))
          (fin @ replicate (Suc n) Pending, w)
        = fold (rl_step toISOString k p) (concat (map (\<lambda>i. [i, i]) [Suc m ..< Suc m + n]))
            ((fin @ [Returned r]) @ replicate n Pending, w2)"
    unfolding upt by (simp add: step1 step2)
  then show ?case
    unfolding ih by (simp add: call case_prod_beta)
qed

lemma run_sequential_schedule:
  "run_schedule toISOString k p n (sequential_schedule n) w
     = (map Returned (fst (checkRateLimit_times n toISOString k p w)),
        snd (checkRateLimit_times n toISOString k p w))"
  using fold_sequential_schedule [of "[]" 0 toISOString k p n w]
  by (simp add: run_schedule_def sequential_schedule_def)

lemma count_allowed_Returned:
  "count_allowed (map Returned rs) = length (filter id (map allowed rs))"
  by (induction rs) (simp_all add: count_allowed_def)

lemma count_denied_Returned:
  "count_denied (map Returned rs) = length (filter Not (map allowed rs))"
  by (induction rs) (simp_all add: count_denied_def)

text \<open>
  Claim C1, as amended. Take a credential with at most one tracking row and effective
  counts of zero, a per-minute ceiling \<open>K\<close> that is not above the hour and the
  day ceiling, and a clock that stays within one minute. Of \<open>N > K\<close> calls that do
  not overlap, each finishing before the next starts, exactly \<open>K\<close> are allowed and
  \<open>N - K\<close> are denied: the first \<open>K\<close> and the others.
\<close>

theorem checkRateLimit_sequential_exactly_K:
  assumes "consumed apiKeyId professionalId 0 w"
      and "within_one_minute w"
      and "requests_per_minute (fst (getRateLimitConfig apiKeyId professionalId w)) = int K"
      and "int K \<le> requests_per_hour (fst (getRateLimitConfig apiKeyId professionalId w))"
      and "int K \<le> requests_per_day (fst (getRateLimitConfig apiKeyId professionalId w))"
      and "K < N"
      and "ts = fst (run_schedule toISOString apiKeyId professionalId N
                       (sequential_schedule N) w)"
  shows "count_allowed ts = K \<and> count_denied ts = N - K
       \<and> ts = map Returned (fst (checkRateLimit_times N toISOString apiKeyId professionalId w))
       \<and> map allowed (fst (checkRateLimit_times N toISOString apiKeyId professionalId w))
           = replicate K True @ replicate (N - K) False"
proof -
  have a: "map allowed (fst (checkRateLimit_times N toISOString apiKeyId professionalId w))
             = replicate K True @ replicate (N - K) False"
    by (rule checkRateLimit_times_exactly_K [OF assms(1-6)])
  have ts: "ts = map Returned (fst (checkRateLimit_times N toISOString apiKeyId professionalId w))"
    unfolding assms(7) by (simp add: run_sequential_schedule)
  have "count_allowed ts = K" "count_denied ts = N - K"
    unfolding ts count_allowed_Returned count_denied_Returned a by simp_all
  with ts a show ?thesis by simp
qed

theorem checkRateLimit_sequential_exactly_K_witness:
  "consumed ''k1'' ''p1'' 0 fresh_world \<and> within_one_minute fresh_world
   \<and> requests_per_minute (fst (getRateLimitConfig ''k1'' ''p1'' fresh_world)) = int 2
   \<and> count_allowed (fst (run_schedule String_int ''k1'' ''p1'' 3
                           (sequential_schedule 3) fresh_world)) = 2
   \<and> count_denied (fst (run_schedule String_int ''k1'' ''p1'' 3
                          (sequential_schedule 3) fresh_world)) = 1
   \<and> map allowed (fst (checkRateLimit_times 3 String_int ''k1'' ''p1'' fresh_world))
        = [True, True, False]"
proof -
  have c: "requests_per_minute (fst (getRateLimitConfig ''k1'' ''p1'' fresh_world)) = int 2"
          "int 2 \<le> requests_per_hour (fst (getRateLimitConfig ''k1'' ''p1'' fresh_world))"
          "int 2 \<le> requests_per_day (fst (getRateLimitConfig ''k1'' ''p1'' fresh_world))"
    by (simp_all add: fresh_world_config)
  have n: "(2::nat) < 3" by simp
  note th = checkRateLimit_sequential_exactly_K
              [OF fresh_world_consumed fresh_world_minute c n refl, of String_int]
  have a: "count_allowed (fst (run_schedule String_int ''k1'' ''p1'' 3
                                 (sequential_schedule 3) fresh_world)) = 2"
    using conjunct1 [OF th] .
  have d: "count_denied (fst (run_schedule String_int ''k1'' ''p1'' 3
                                (sequential_schedule 3) fresh_world)) = 1"
    using conjunct1 [OF conjunct2 [OF th]] by simp
  have m: "map allowed (fst (checkRateLimit_times 3 String_int ''k1'' ''p1'' fresh_world))
             = [True, True, False]"
    using conjunct2 [OF conjunct2 [OF conjunct2 [OF th]]] by (simp add: eval_nat_numeral)
  from fresh_world_consumed fresh_world_minute c(1) a d m show ?thesis by blast
qed

lemma one_slot_config:
  "fst (getRateLimitConfig ''k1'' ''p1'' one_slot_world)
     = \<lparr>requests_per_minute = 1, requests_per_hour = 1000, requests_per_day = 10000\<rparr>"
  by (simp add: getRateLimitConfig_def select_config_def single_def one_slot_world_def
      RateLimitConfig.truncate_def)

lemma one_slot_select:
  "api_rate_limit_tracking (db w) = [] \<Longrightarrow>
   api_rate_limit_config (db w) = api_rate_limit_config (db one_slot_world) \<Longrightarrow>
   tracking (fst (checkRateLimit_select ''k1'' ''p1'' w)) = None
   \<and> config (fst (checkRateLimit_select ''k1'' ''p1'' w))
       = \<lparr>requests_per_minute = 1, requests_per_hour = 1000, requests_per_day = 10000\<rparr>"
  using getRateLimitConfig_table [of w one_slot_world "''k1''" "''p1''"]
  by (simp add: checkRateLimit_select_eq tracking_rows_def single_def one_slot_config)

lemma not_exceeded_without_row:
  "tracking s = None \<Longrightarrow> 0 < requests_per_minute (config s) \<Longrightarrow>
   0 < requests_per_hour (config s) \<Longrightarrow> 0 < requests_per_day (config s) \<Longrightarrow>
   \<not> minuteExceeded s \<and> \<not> hourExceeded s \<and> \<not> dayExceeded s"
  by (simp add: minuteExceeded_def hourExceeded_def dayExceeded_def minuteCount_def
      hourCount_def dayCount_def)

text \<open>
  The claim as stated fails for calls that overlap. With a ceiling of one request per
  minute and no tracking row, two calls that both select before either upserts are both
  allowed, and none is denied.
\<close>

theorem checkRateLimit_overlap_counterexample:
  "requests_per_minute (fst (getRateLimitConfig ''k1'' ''p1'' one_slot_world)) = 1
   \<and> count_allowed (fst (run_schedule String_int ''k1'' ''p1'' 2 [0, 1, 0, 1] one_slot_world)) = 2
   \<and> count_denied (fst (run_schedule String_int ''k1'' ''p1'' 2 [0, 1, 0, 1] one_slot_world)) = 0"
proof -
  define s0 where "s0 = fst (checkRateLimit_select ''k1'' ''p1'' one_slot_world)"
  define w1 where "w1 = one_slot_world\<lparr>reads := reads one_slot_world + 3\<rparr>"
  define s1 where "s1 = fst (checkRateLimit_select ''k1'' ''p1'' w1)"
  define w2 where "w2 = w1\<lparr>reads := reads w1 + 3\<rparr>"
  define r0 where "r0 = fst (checkRateLimit_decide String_int ''k1'' s0 w2)"
  define w3 where "w3 = snd (checkRateLimit_decide String_int ''k1'' s0 w2)"
  define r1 where "r1 = fst (checkRateLimit_decide String_int ''k1'' s1 w3)"
  define w4 where "w4 = snd (checkRateLimit_decide String_int ''k1'' s1 w3)"
  have t0: "api_rate_limit_tracking (db one_slot_world) = []"
    by (simp add: one_slot_world_def)
  have sel0: "checkRateLimit_select ''k1'' ''p1'' one_slot_world = (s0, w1)"
    by (simp add: s0_def w1_def checkRateLimit_select_eq)
  have sel1: "checkRateLimit_select ''k1'' ''p1'' w1 = (s1, w2)"
    by (simp add: s1_def w2_def checkRateLimit_select_eq)
  have s0: "tracking s0 = None"
           "config s0 = \<lparr>requests_per_minute = 1, requests_per_hour = 1000,
                          requests_per_day = 10000\<rparr>"
    unfolding s0_def using one_slot_select [OF t0 refl] by simp_all
  have s1: "tracking s1 = None"
           "config s1 = \<lparr>requests_per_minute = 1, requests_per_hour = 1000,
                          requests_per_day = 10000\<rparr>"
    unfolding s1_def using one_slot_select [of w1] t0 by (simp_all add: w1_def)
  have n0: "\<not> minuteExceeded s0" "\<not> hourExceeded s0" "\<not> dayExceeded s0"
    using not_exceeded_without_row [of s0] s0 by simp_all
  have n1: "\<not> minuteExceeded s1" "\<not> hourExceeded s1" "\<not> dayExceeded s1"
    using not_exceeded_without_row [of s1] s1 by simp_all
  have a0: "allowed r0"
    unfolding r0_def by (simp add: checkRateLimit_decide_allowed [OF n0])
  have a1: "allowed r1"
    unfolding r1_def by (simp add: checkRateLimit_decide_allowed [OF n1])
  have dec0: "checkRateLimit_decide String_int ''k1'' s0 w2 = (r0, w3)"
    by (simp add: r0_def w3_def)
  have dec1: "checkRateLimit_decide String_int ''k1'' s1 w3 = (r1, w4)"
    by (simp add: r1_def w4_def)
  have run: "run_schedule String_int ''k1'' ''p1'' 2 [0, 1, 0, 1] one_slot_world
               = ([Returned r0, Returned r1], w4)"
    by (simp add: run_schedule_def rl_step_def eval_nat_numeral sel0 sel1 dec0 dec1)
  show ?thesis
    unfolding run using a0 a1
    by (simp add: count_allowed_def count_denied_def one_slot_config)
qed

subsection \<open>Rate limit headers\<close>

text \<open>
  Claim C10. For every result, the three limit headers are the constants 60, 1000 and
  10000; the result (and so the policy resolved for the caller) does not enter them.
  The remaining and the reset headers carry the values of the result.
\<close>

theorem getRateLimitHeaders_fixed_limits:
  "map_of (getRateLimitHeaders result) ''X-RateLimit-Limit-Minute'' = Some ''60''
   \<and> map_of (getRateLimitHeaders result) ''X-RateLimit-Limit-Hour'' = Some ''1000''
   \<and> map_of (getRateLimitHeaders result) ''X-RateLimit-Limit-Day'' = Some ''10000''
   \<and> map_of (getRateLimitHeaders result) ''X-RateLimit-Remaining-Minute''
        = Some (String_int (minute (remaining result)))
   \<and> map_of (getRateLimitHeaders result) ''X-RateLimit-Remaining-Hour''
        = Some (String_int (hour (remaining result)))
   \<and> map_of (getRateLimitHeaders result) ''X-RateLimit-Remaining-Day''
        = Some (String_int (day (remaining result)))
   \<and> map_of (getRateLimitHeaders result) ''X-RateLimit-Reset-Minute''
        = Some (minute (reset result))
   \<and> map_of (getRateLimitHeaders result) ''X-RateLimit-Reset-Hour''
        = Some (hour (reset result))
   \<and> map_of (getRateLimitHeaders result) ''X-RateLimit-Reset-Day''
        = Some (day (reset result))"
  by (simp add: getRateLimitHeaders_def)

subsection \<open>Key authenticator\<close>

lemma key_format_ok_nonempty: "key_format_ok apiKey \<Longrightarrow> apiKey \<noteq> []"
  by (auto simp: key_format_ok_def)

lemma validateApiKey_malformed:
  "apiKey \<noteq> [] \<Longrightarrow> \<not> key_format_ok apiKey \<Longrightarrow>
   validateApiKey hashApiKey apiKey w =
     (\<lparr>isValid = False, result_professionalId = None, result_apiKeyId = None,
       error = Some ''Invalid API key format'',
       errorCode = Some ''invalid_api_key_format''\<rparr>, w)"
  by (simp add: validateApiKey_def)

lemma validateApiKey_found:
  assumes "key_format_ok apiKey" "select_api_key (hashApiKey apiKey) w = Some d"
  shows "validateApiKey hashApiKey apiKey w =
     (if \<not> key_is_active d then
        (\<lparr>isValid = False, result_professionalId = None, result_apiKeyId = None,
          error = Some ''API key is inactive'', errorCode = Some ''inactive_api_key''\<rparr>, w)
      else if revoked_at d \<noteq> None then
        (\<lparr>isValid = False, result_professionalId = None, result_apiKeyId = None,
          error = Some ''API key has been revoked'',
          errorCode = Some ''revoked_api_key''\<rparr>, w)
      else if (\<exists>e. expires_at d = Some e \<and> e < clock w (reads w)) then
        (\<lparr>isValid = False, result_professionalId = None, result_apiKeyId = None,
          error = Some ''API key has expired'', errorCode = Some ''expired_api_key''\<rparr>,
         update_api_keys (\<lambda>r. r\<lparr>key_is_active := False\<rparr>) (key_id d)
           (w\<lparr>reads := Suc (reads w)\<rparr>))
      else
        (\<lparr>isValid = True, result_professionalId = Some (key_professional_id d),
          result_apiKeyId = Some (key_id d), error = None, errorCode = None\<rparr>,
         (let w1 = (case expires_at d of None \<Rightarrow> w | Some e \<Rightarrow> w\<lparr>reads := Suc (reads w)\<rparr>)
          in update_api_keys (\<lambda>r. r\<lparr>last_used_at := Some (clock w1 (reads w1))\<rparr>)
               (key_id d) (w1\<lparr>reads := Suc (reads w1)\<rparr>))))"
  using assms key_format_ok_nonempty [OF assms(1)]
  by (simp add: validateApiKey_def Date_now_def Let_def split: option.splits)

lemma validateApiKey_absent:
  assumes "key_format_ok apiKey" "select_api_key (hashApiKey apiKey) w = None"
  shows "validateApiKey hashApiKey apiKey w =
     (\<lparr>isValid = False, result_professionalId = None, result_apiKeyId = None,
       error = Some ''Invalid API key'', errorCode = Some ''invalid_api_key''\<rparr>, w)"
  using assms key_format_ok_nonempty [OF assms(1)]
  by (simp add: validateApiKey_def)

lemma extractApiKey_presented:
  "extractApiKey req = Some apiKey \<longleftrightarrow> req_api_key req = Some apiKey \<and> apiKey \<noteq> []"
  by (auto simp: extractApiKey_def or_null_def split: option.splits if_splits)

text \<open>
  Claim C5. A presented key is the value of the key header that \<open>extractApiKey\<close>
  hands to \<open>validateApiKey\<close>: any non-empty string. For every presented key,
  \<open>validateApiKey\<close> applies its checks in this order. A key that is not the prefix
  \<open>ofair_pk_\<close> followed by 32 letters or digits is rejected as
  \<open>invalid_api_key_format\<close>, whatever the store holds. Then a key whose digest
  selects no row is rejected as \<open>invalid_api_key\<close>; then a row that is not active
  as \<open>inactive_api_key\<close>; then an active row with a revocation time as
  \<open>revoked_api_key\<close>; then an active, unrevoked row whose expiry time is before
  the clock reading as \<open>expired_api_key\<close>. A key that passes all of these is valid,
  and a valid result carries the id and the tenant id of the row that passed them.
\<close>

theorem validateApiKey_check_order:
  assumes "extractApiKey req = Some apiKey"
      and "r = fst (validateApiKey hashApiKey apiKey w)"
      and "data = select_api_key (hashApiKey apiKey) w"
  shows "(\<not> key_format_ok apiKey \<longrightarrow>
            errorCode r = Some ''invalid_api_key_format''
            \<and> (\<forall>w2. fst (validateApiKey hashApiKey apiKey w2) = r))
       \<and> (key_format_ok apiKey \<and> data = None \<longrightarrow> errorCode r = Some ''invalid_api_key'')
       \<and> (key_format_ok apiKey \<and> (\<exists>d. data = Some d \<and> \<not> key_is_active d) \<longrightarrow>
            errorCode r = Some ''inactive_api_key'')
       \<and> (key_format_ok apiKey
            \<and> (\<exists>d. data = Some d \<and> key_is_active d \<and> revoked_at d \<noteq> None) \<longrightarrow>
            errorCode r = Some ''revoked_api_key'')
       \<and> (key_format_ok apiKey
            \<and> (\<exists>d e. data = Some d \<and> key_is_active d \<and> revoked_at d = None
                      \<and> expires_at d = Some e \<and> e < clock w (reads w)) \<longrightarrow>
            errorCode r = Some ''expired_api_key'')
       \<and> (key_format_ok apiKey
            \<and> (\<exists>d. data = Some d \<and> key_is_active d \<and> revoked_at d = None
                    \<and> (\<forall>e. expires_at d = Some e \<longrightarrow> \<not> e < clock w (reads w))) \<longrightarrow>
            isValid r)
       \<and> (isValid r \<longrightarrow>
            key_format_ok apiKey
            \<and> (\<exists>d. data = Some d \<and> key_is_active d \<and> revoked_at d = None
                    \<and> (\<forall>e. expires_at d = Some e \<longrightarrow> \<not> e < clock w (reads w))
                    \<and> result_apiKeyId r = Some (key_id d)
                    \<and> result_professionalId r = Some (key_professional_id d)))"
proof -
  have ne: "apiKey \<noteq> []"
    using assms(1) by (simp add: extractApiKey_presented)
  show ?thesis
  proof (cases "key_format_ok apiKey")
    case False
    with ne assms(2) show ?thesis by (simp add: validateApiKey_malformed)
  next
    case ok: True
    show ?thesis
    proof (cases data)
      case None
      with ok ne assms(2,3) show ?thesis by (simp add: validateApiKey_absent)
    next
      case (Some d)
      then have sel: "select_api_key (hashApiKey apiKey) w = Some d"
        using assms(3) by simp
      show ?thesis
        using ok ne Some assms(2)
        by (auto simp: validateApiKey_found
                         [where hashApiKey = hashApiKey and apiKey = apiKey, OF ok sel])
    qed
  qed
qed


lemma keys_world_select:
  "select_api_key (rev good_key) keys_world =
     Some \<lparr>key_id = ''id4'', key_professional_id = ''p2'', key_hash = rev good_key,
           key_is_active = True, last_used_at = None, expires_at = Some 9000,
           revoked_at = None\<rparr>"
  "select_api_key (rev revoked_key) keys_world =
     Some \<lparr>key_id = ''id3'', key_professional_id = ''p2'', key_hash = rev revoked_key,
           key_is_active = True, last_used_at = None, expires_at = Some 4000,
           revoked_at = Some 3000\<rparr>"
  "select_api_key (rev expired_key) keys_world =
     Some \<lparr>key_id = ''id1'', key_professional_id = ''p1'', key_hash = rev expired_key,
           key_is_active = True, last_used_at = None, expires_at = Some 4000,
           revoked_at = None\<rparr>"
  by (simp_all add: select_api_key_def keys_world_def single_def good_key_def
      revoked_key_def expired_key_def inactive_key_def)

lemma keys_format:
  "key_format_ok good_key" "key_format_ok revoked_key" "key_format_ok expired_key"
  by (simp_all add: key_format_ok_def good_key_def revoked_key_def expired_key_def
      alphanumeric_def)

lemma keys_world_clock: "clock keys_world (reads keys_world) = 5000"
  by (simp add: keys_world_def)

lemma keys_world_select_more:
  "select_api_key (rev inactive_key) keys_world =
     Some \<lparr>key_id = ''id2'', key_professional_id = ''p1'', key_hash = rev inactive_key,
           key_is_active = False, last_used_at = None, expires_at = None,
           revoked_at = Some 3000\<rparr>"
  "select_api_key (rev unknown_key) keys_world = None"
  by (simp_all add: select_api_key_def keys_world_def single_def good_key_def
      revoked_key_def expired_key_def inactive_key_def unknown_key_def)

lemma keys_format_more:
  "key_format_ok inactive_key" "key_format_ok unknown_key"
  by (simp_all add: key_format_ok_def inactive_key_def unknown_key_def alphanumeric_def)

lemma key_request_presents:
  "k \<noteq> [] \<Longrightarrow> extractApiKey (key_request k) = Some k"
  by (simp add: extractApiKey_presented key_request_def)

lemma keys_nonempty:
  "unknown_key \<noteq> []" "inactive_key \<noteq> []" "revoked_key \<noteq> []" "expired_key \<noteq> []"
  "good_key \<noteq> []"
  by (simp_all add: unknown_key_def inactive_key_def revoked_key_def expired_key_def
      good_key_def)

theorem validateApiKey_check_order_witness:
  "extractApiKey (key_request ''ofair_pk_short'') = Some ''ofair_pk_short''
   \<and> \<not> key_format_ok ''ofair_pk_short''
   \<and> errorCode (fst (validateApiKey rev ''ofair_pk_short'' keys_world))
        = Some ''invalid_api_key_format''
   \<and> extractApiKey (key_request unknown_key) = Some unknown_key
   \<and> key_format_ok unknown_key
   \<and> errorCode (fst (validateApiKey rev unknown_key keys_world)) = Some ''invalid_api_key''
   \<and> extractApiKey (key_request inactive_key) = Some inactive_key
   \<and> key_format_ok inactive_key
   \<and> errorCode (fst (validateApiKey rev inactive_key keys_world)) = Some ''inactive_api_key''
   \<and> extractApiKey (key_request revoked_key) = Some revoked_key
   \<and> key_format_ok revoked_key
   \<and> errorCode (fst (validateApiKey rev revoked_key keys_world)) = Some ''revoked_api_key''
   \<and> extractApiKey (key_request expired_key) = Some expired_key
   \<and> key_format_ok expired_key
   \<and> errorCode (fst (validateApiKey rev expired_key keys_world)) = Some ''expired_api_key''
   \<and> extractApiKey (key_request good_key) = Some good_key
   \<and> key_format_ok good_key
   \<and> isValid (fst (validateApiKey rev good_key keys_world))
   \<and> result_apiKeyId (fst (validateApiKey rev good_key keys_world)) = Some ''id4''
   \<and> result_professionalId (fst (validateApiKey rev good_key keys_world)) = Some ''p2''"
proof -
  have bad: "\<not> key_format_ok ''ofair_pk_short''"
    by (simp add: key_format_ok_def)
  have pm: "extractApiKey (key_request ''ofair_pk_short'') = Some ''ofair_pk_short''"
    by (simp add: key_request_presents)
  note pu = key_request_presents [OF keys_nonempty(1)]
  note pi = key_request_presents [OF keys_nonempty(2)]
  note pr = key_request_presents [OF keys_nonempty(3)]
  note px = key_request_presents [OF keys_nonempty(4)]
  note pg = key_request_presents [OF keys_nonempty(5)]
  have m: "errorCode (fst (validateApiKey rev ''ofair_pk_short'' keys_world))
             = Some ''invalid_api_key_format''"
    using validateApiKey_check_order
            [OF pm refl refl, where hashApiKey = rev and w = keys_world] bad
    by simp
  have u: "errorCode (fst (validateApiKey rev unknown_key keys_world)) = Some ''invalid_api_key''"
    using validateApiKey_check_order
            [OF pu refl refl, where hashApiKey = rev and w = keys_world]
    by (simp add: keys_world_select_more keys_format_more)
  have i: "errorCode (fst (validateApiKey rev inactive_key keys_world))
             = Some ''inactive_api_key''"
    using validateApiKey_check_order
            [OF pi refl refl, where hashApiKey = rev and w = keys_world]
    by (simp add: keys_world_select_more keys_format_more)
  have r: "errorCode (fst (validateApiKey rev revoked_key keys_world)) = Some ''revoked_api_key''"
    using validateApiKey_check_order
            [OF pr refl refl, where hashApiKey = rev and w = keys_world]
    by (simp add: keys_world_select keys_format)
  have x: "errorCode (fst (validateApiKey rev expired_key keys_world)) = Some ''expired_api_key''"
    using validateApiKey_check_order
            [OF px refl refl, where hashApiKey = rev and w = keys_world]
    by (simp add: keys_world_select keys_format keys_world_clock)
  have g: "isValid (fst (validateApiKey rev good_key keys_world))
           \<and> result_apiKeyId (fst (validateApiKey rev good_key keys_world)) = Some ''id4''
           \<and> result_professionalId (fst (validateApiKey rev good_key keys_world)) = Some ''p2''"
    using validateApiKey_check_order
            [OF pg refl refl, where hashApiKey = rev and w = keys_world]
    by (simp add: keys_world_select keys_format keys_world_clock)
  from bad pm pu pi pr px pg m u i r x g keys_format keys_format_more show ?thesis by simp
qed

text \<open>
  The empty string is not a presented key: the handler answers a request whose key
  header is absent or empty with \<open>missing_api_key\<close> itself, and \<open>validateApiKey\<close>
  has the same answer behind its first guard.
\<close>

lemma validateApiKey_empty_key:
  "errorCode (fst (validateApiKey hashApiKey [] w)) = Some ''missing_api_key''
   \<and> extractApiKey req \<noteq> Some []"
  by (simp add: validateApiKey_def extractApiKey_presented)

lemma single_eq_Some: "single xs = Some x \<longleftrightarrow> xs = [x]"
  by (simp add: single_def split: list.splits)

lemma select_after_deactivation:
  assumes "select_api_key h w = Some d"
      and that: "api_keys (db w1) = api_keys (db w)"
  shows "select_api_key h (update_api_keys (\<lambda>r. r\<lparr>key_is_active := False\<rparr>) (key_id d) w1)
           = Some (d\<lparr>key_is_active := False\<rparr>)"
proof -
  let ?f = "\<lambda>r. if key_id r = key_id d then r\<lparr>key_is_active := False\<rparr> else r"
  have "filter (\<lambda>r. key_hash r = h) (map ?f t) = map ?f (filter (\<lambda>r. key_hash r = h) t)"
    for t :: "api_key_row list"
    by (induction t) simp_all
  moreover have "filter (\<lambda>r. key_hash r = h) (api_keys (db w)) = [d]"
    using assms(1) by (simp add: select_api_key_def single_eq_Some)
  ultimately show ?thesis
    using that by (simp add: select_api_key_def update_api_keys_def single_def)
qed

text \<open>
  Claim C6. When \<open>validateApiKey\<close> rejects a key as expired, the row of that key
  is inactive in the world it returns, and a second call with the same key in that
  world is rejected as \<open>inactive_api_key\<close>, whatever the clock reads then.
\<close>

theorem validateApiKey_expiry_persisted:
  assumes "errorCode (fst (validateApiKey hashApiKey apiKey w)) = Some ''expired_api_key''"
      and "w' = snd (validateApiKey hashApiKey apiKey w)"
  shows "(\<exists>d. select_api_key (hashApiKey apiKey) w' = Some d \<and> \<not> key_is_active d)
       \<and> \<not> isValid (fst (validateApiKey hashApiKey apiKey w'))
       \<and> errorCode (fst (validateApiKey hashApiKey apiKey w')) = Some ''inactive_api_key''"
proof -
  have ne: "apiKey \<noteq> []"
    using assms(1) by (auto simp: validateApiKey_def)
  have ok: "key_format_ok apiKey"
    using assms(1) ne by (cases "key_format_ok apiKey") (simp_all add: validateApiKey_malformed)
  obtain d where sel: "select_api_key (hashApiKey apiKey) w = Some d"
    using assms(1) ok
    by (cases "select_api_key (hashApiKey apiKey) w") (simp_all add: validateApiKey_absent)
  note found = validateApiKey_found [where hashApiKey = hashApiKey and apiKey = apiKey, OF ok sel]
  have w': "w' = update_api_keys (\<lambda>r. r\<lparr>key_is_active := False\<rparr>) (key_id d)
                   (w\<lparr>reads := Suc (reads w)\<rparr>)"
    using assms unfolding found by (simp split: if_splits)
  have sel': "select_api_key (hashApiKey apiKey) w' = Some (d\<lparr>key_is_active := False\<rparr>)"
    unfolding w' by (rule select_after_deactivation [OF sel]) simp
  show ?thesis
    using sel'
    by (simp add: validateApiKey_found
                    [where hashApiKey = hashApiKey and apiKey = apiKey, OF ok sel'])
qed

theorem validateApiKey_expiry_persisted_witness:
  "errorCode (fst (validateApiKey rev expired_key keys_world)) = Some ''expired_api_key''
   \<and> errorCode (fst (validateApiKey rev expired_key
                       (snd (validateApiKey rev expired_key keys_world))))
        = Some ''inactive_api_key''"
proof -
  have e: "errorCode (fst (validateApiKey rev expired_key keys_world)) = Some ''expired_api_key''"
    by (simp add: validateApiKey_found
                    [where hashApiKey = rev and apiKey = expired_key,
                     OF keys_format(3) keys_world_select(3)] keys_world_clock)
  from validateApiKey_expiry_persisted [OF e refl] e show ?thesis by simp
qed

subsection \<open>Sanitization\<close>

lemma set_property_fresh:
  "set_property (length (heap w)) k v (w\<lparr>heap := heap w @ [props]\<rparr>)
     = w\<lparr>heap := heap w @ [AList.update k v props]\<rparr>"
  by (simp add: set_property_def)

lemma delete_property_fresh:
  "delete_property (length (heap w)) k (w\<lparr>heap := heap w @ [props]\<rparr>)
     = w\<lparr>heap := heap w @ [AList.delete k props]\<rparr>"
  by (simp add: delete_property_def)

lemma mask_step_fresh:
  "(case map_of (heap (w\<lparr>heap := heap w @ [props]\<rparr>) ! length (heap w)) ''client_phone'' of
      Some (JStr phone) \<Rightarrow>
        if phone \<noteq> [] then
          set_property (length (heap w)) ''client_phone''
            (JStr (if length phone > 4
                   then replicate (length phone - 4) CHR ''*'' @ drop (length phone - 4) phone
                   else ''****'')) (w\<lparr>heap := heap w @ [props]\<rparr>)
        else w\<lparr>heap := heap w @ [props]\<rparr>
    | _ \<Rightarrow> w\<lparr>heap := heap w @ [props]\<rparr>)
   = w\<lparr>heap := heap w @
        [case map_of props ''client_phone'' of
           Some (JStr phone) \<Rightarrow>
             if phone \<noteq> [] then
               AList.update ''client_phone''
                 (JStr (if length phone > 4
                        then replicate (length phone - 4) CHR ''*''
                               @ drop (length phone - 4) phone
                        else ''****'')) props
             else props
         | _ \<Rightarrow> props]\<rparr>"
  by (simp add: set_property_fresh split: option.split jsval.split)

lemma sanitizeRequestBody_copy:
  assumes "bdy \<noteq> Null" "\<And>v. bdy = Prim v \<Longrightarrow> \<not> falsy v"
  shows "sanitizeRequestBody bdy w =
           (Obj (length (heap w)),
            w\<lparr>heap := heap w @ [sanitized_properties (own_properties bdy w)]\<rparr>)"
proof -
  have c: "\<not> (bdy = Null \<or> (case bdy of Prim v \<Rightarrow> falsy v | _ \<Rightarrow> False))"
    using assms by (cases bdy) simp_all
  show ?thesis
    unfolding sanitizeRequestBody_def
    by (simp only: c if_False new_object_def Let_def prod.case mask_step_fresh
          delete_property_fresh sanitized_properties_def)
qed

lemma sanitizeRequestBody_null:
  assumes "bdy = Null \<or> (\<exists>v. bdy = Prim v \<and> falsy v)"
  shows "sanitizeRequestBody bdy w = (Null, w)"
  using assms by (auto simp: sanitizeRequestBody_def)

lemma sanitizeRequestBody_db: "db (snd (sanitizeRequestBody bdy w)) = db w"
proof (cases "bdy = Null \<or> (\<exists>v. bdy = Prim v \<and> falsy v)")
  case True
  then show ?thesis by (simp add: sanitizeRequestBody_null)
next
  case False
  then have "bdy \<noteq> Null" "\<And>v. bdy = Prim v \<Longrightarrow> \<not> falsy v" by auto
  then show ?thesis by (simp add: sanitizeRequestBody_copy)
qed


lemma sanitizeRequestBody_Obj:
  "sanitizeRequestBody (Obj b) w =
     (Obj (length (heap w)), w\<lparr>heap := heap w @ [sanitized_properties (heap w ! b)]\<rparr>)"
  using sanitizeRequestBody_copy [of "Obj b" w] by (simp add: own_properties_def)

lemma map_of_sanitized_properties:
  "map_of (sanitized_properties props) k =
     (if k \<in> {''password'', ''token'', ''api_key''} then None
      else if k = ''client_phone'' then
        (case map_of props ''client_phone'' of
           Some (JStr phone) \<Rightarrow>
             if phone \<noteq> [] then
               Some (JStr (if length phone > 4
                           then replicate (length phone - 4) CHR ''*''
                                  @ drop (length phone - 4) phone
                           else ''****''))
             else Some (JStr phone)
         | other \<Rightarrow> other)
      else map_of props k)"
  by (simp add: sanitized_properties_def delete_conv' update_conv'
      split: option.split jsval.split)

text \<open>
  Claim C7, as amended. \<open>sanitizeRequestBody\<close> returns \<open>null\<close> for \<open>null\<close>.
  For an object it returns a new object and leaves every object that existed, the
  input among them, and every table as they were. In the new object the properties
  \<open>password\<close>, \<open>token\<close> and \<open>api_key\<close> are absent; a \<open>client_phone\<close> that is
  a string of more than four characters is replaced by as many \<open>*\<close> as it has
  characters before its last four, followed by its last four; a \<open>client_phone\<close>
  that is a non-empty string of at most four characters is replaced by \<open>****\<close>; a
  \<open>client_phone\<close> that is not a non-empty string, and every other property, is as
  in the input.
\<close>

theorem sanitizeRequestBody_copy_masked:
  assumes "r = fst (sanitizeRequestBody (Obj b) w)"
      and "w' = snd (sanitizeRequestBody (Obj b) w)"
      and "original = heap w ! b"
      and "sanitized = heap w' ! length (heap w)"
  shows "sanitizeRequestBody Null w = (Null, w)
       \<and> r = Obj (length (heap w))
       \<and> heap w' = heap w @ [sanitized]
       \<and> (b < length (heap w) \<longrightarrow> heap w' ! b = original)
       \<and> db w' = db w
       \<and> map_of sanitized ''password'' = None
       \<and> map_of sanitized ''token'' = None
       \<and> map_of sanitized ''api_key'' = None
       \<and> (\<forall>phone. map_of original ''client_phone'' = Some (JStr phone) \<and> 4 < length phone \<longrightarrow>
             map_of sanitized ''client_phone''
               = Some (JStr (replicate (length phone - 4) CHR ''*''
                             @ drop (length phone - 4) phone)))
       \<and> (\<forall>phone. map_of original ''client_phone'' = Some (JStr phone) \<and> phone \<noteq> []
                   \<and> length phone \<le> 4 \<longrightarrow>
             map_of sanitized ''client_phone'' = Some (JStr ''****''))
       \<and> ((\<forall>phone. map_of original ''client_phone'' = Some (JStr phone) \<longrightarrow> phone = []) \<longrightarrow>
             map_of sanitized ''client_phone'' = map_of original ''client_phone'')
       \<and> (\<forall>k. k \<notin> {''client_phone'', ''password'', ''token'', ''api_key''} \<longrightarrow>
             map_of sanitized k = map_of original k)"
proof -
  have eq: "sanitizeRequestBody (Obj b) w =
              (Obj (length (heap w)),
               w\<lparr>heap := heap w @ [sanitized_properties original]\<rparr>)"
    unfolding assms(3) by (rule sanitizeRequestBody_Obj)
  have r: "r = Obj (length (heap w))" and w': "w' = w\<lparr>heap := heap w @ [sanitized_properties original]\<rparr>"
    using assms(1,2) unfolding eq by simp_all
  have s: "sanitized = sanitized_properties original"
    using assms(4) unfolding w' by simp
  have n: "sanitizeRequestBody Null w = (Null, w)"
    by (simp add: sanitizeRequestBody_null)
  have rm: "map_of sanitized ''password'' = None" "map_of sanitized ''token'' = None"
           "map_of sanitized ''api_key'' = None"
    unfolding s by (simp_all add: map_of_sanitized_properties)
  have long: "\<forall>phone. map_of original ''client_phone'' = Some (JStr phone) \<and> 4 < length phone \<longrightarrow>
               map_of sanitized ''client_phone''
                 = Some (JStr (replicate (length phone - 4) CHR ''*''
                               @ drop (length phone - 4) phone))"
    unfolding s by (auto simp: map_of_sanitized_properties)
  have short: "\<forall>phone. map_of original ''client_phone'' = Some (JStr phone) \<and> phone \<noteq> []
                     \<and> length phone \<le> 4 \<longrightarrow>
               map_of sanitized ''client_phone'' = Some (JStr ''****'')"
    unfolding s by (auto simp: map_of_sanitized_properties)
  have phone: "(\<forall>phone. map_of original ''client_phone'' = Some (JStr phone) \<longrightarrow> phone = []) \<longrightarrow>
               map_of sanitized ''client_phone'' = map_of original ''client_phone''"
    unfolding s
    by (auto simp: map_of_sanitized_properties split: option.split jsval.split)
  have rest: "\<forall>k. k \<notin> {''client_phone'', ''password'', ''token'', ''api_key''} \<longrightarrow>
               map_of sanitized k = map_of original k"
    unfolding s by (simp add: map_of_sanitized_properties)
  have heap: "heap w' = heap w @ [sanitized]" "db w' = db w"
    unfolding w' s by simp_all
  have old: "b < length (heap w) \<longrightarrow> heap w' ! b = original"
    unfolding heap(1) assms(3) by (simp add: nth_append)
  from n r heap old rm long short phone rest show ?thesis by blast
qed

theorem sanitizeRequestBody_copy_masked_witness:
  "heap (snd (sanitizeRequestBody (Obj 0) bodies_world)) ! 0 = heap bodies_world ! 0
   \<and> map_of (heap bodies_world ! 0) ''client_phone'' = Some (JStr ''0501234567'')
   \<and> map_of (heap (snd (sanitizeRequestBody (Obj 0) bodies_world)) ! 3) ''client_phone''
        = Some (JStr ''******4567'')
   \<and> map_of (heap (snd (sanitizeRequestBody (Obj 0) bodies_world)) ! 3) ''token'' = None
   \<and> map_of (heap (snd (sanitizeRequestBody (Obj 0) bodies_world)) ! 3) ''client_name''
        = Some (JStr ''Dana'')
   \<and> map_of (heap bodies_world ! 1) ''client_phone'' = Some (JStr ''123'')
   \<and> map_of (heap (snd (sanitizeRequestBody (Obj 1) bodies_world)) ! 3) ''client_phone''
        = Some (JStr ''****'')
   \<and> map_of (heap bodies_world ! 2) ''client_phone'' = None
   \<and> map_of (heap (snd (sanitizeRequestBody (Obj 2) bodies_world)) ! 3) ''client_phone''
        = None"
proof -
  have h: "length (heap bodies_world) = 3" "(0::nat) < length (heap bodies_world)"
          "map_of (heap bodies_world ! 0) ''client_phone'' = Some (JStr ''0501234567'')"
          "map_of (heap bodies_world ! 0) ''client_name'' = Some (JStr ''Dana'')"
          "map_of (heap bodies_world ! 1) ''client_phone'' = Some (JStr ''123'')"
          "map_of (heap bodies_world ! 2) ''client_phone'' = None"
    by (simp_all add: bodies_world_def)
  have a: "heap (snd (sanitizeRequestBody (Obj 0) bodies_world)) ! 0 = heap bodies_world ! 0
           \<and> map_of (heap (snd (sanitizeRequestBody (Obj 0) bodies_world)) ! 3) ''client_phone''
                = Some (JStr ''******4567'')
           \<and> map_of (heap (snd (sanitizeRequestBody (Obj 0) bodies_world)) ! 3) ''token'' = None
           \<and> map_of (heap (snd (sanitizeRequestBody (Obj 0) bodies_world)) ! 3) ''client_name''
                = Some (JStr ''Dana'')"
    using sanitizeRequestBody_copy_masked
            [OF refl refl refl refl, where b = 0 and w = bodies_world] h
    by simp
  have b: "map_of (heap (snd (sanitizeRequestBody (Obj 1) bodies_world)) ! 3) ''client_phone''
             = Some (JStr ''****'')"
    using sanitizeRequestBody_copy_masked
            [OF refl refl refl refl, where b = 1 and w = bodies_world] h
    by simp
  have c: "map_of (heap (snd (sanitizeRequestBody (Obj 2) bodies_world)) ! 3) ''client_phone''
             = None"
    using sanitizeRequestBody_copy_masked
            [OF refl refl refl refl, where b = 2 and w = bodies_world] h
    by simp
  from a b c h show ?thesis by simp
qed

text \<open>
  The claim as stated fails for a phone value of fewer than four characters: the mask
  of \<open>123\<close> is \<open>****\<close>, which is longer than the value and keeps none of it.
\<close>

theorem sanitizeRequestBody_short_phone_counterexample:
  "map_of (heap bodies_world ! 1) ''client_phone'' = Some (JStr ''123'')
   \<and> map_of (heap (snd (sanitizeRequestBody (Obj 1) bodies_world)) ! 3) ''client_phone''
        = Some (JStr ''****'')
   \<and> length ''****'' \<noteq> length ''123''"
proof -
  have h: "heap bodies_world ! 1 = [(''client_phone'', JStr ''123'')]"
          "length (heap bodies_world) = 3"
    by (simp_all add: bodies_world_def)
  have "heap (snd (sanitizeRequestBody (Obj 1) bodies_world)) ! 3
          = sanitized_properties [(''client_phone'', JStr ''123'')]"
    unfolding sanitizeRequestBody_Obj h snd_conv
    using nth_append_length [of "heap bodies_world"] h(2) by simp
  then show ?thesis
    unfolding h by (simp add: map_of_sanitized_properties)
qed

subsection \<open>Gateway pipeline\<close>

lemma finalizeRequest_audited:
  assumes "api_request_logs (db w1) = api_request_logs (db w)"
      and "requestId ctx = rid"
      and "out_status out = resp_status resp"
      and "out_body out = resp_body resp"
  shows "audited w rid resp (finalizeRequest ctx out w1)"
proof -
  have "db (snd (sanitizeRequestBody (requestBody ctx) (w1\<lparr>reads := Suc (reads w1)\<rparr>))) = db w1"
    by (simp add: sanitizeRequestBody_db)
  then show ?thesis
    using assms
    by (simp add: audited_def finalizeRequest_def Date_now_def logRequest_def audit_row_def
        case_prod_beta Let_def)
qed

lemma validateApiKey_logs:
  "api_request_logs (db (snd (validateApiKey h k w))) = api_request_logs (db w)"
proof (cases "k = [] \<or> \<not> key_format_ok k")
  case True
  then show ?thesis by (auto simp: validateApiKey_def)
next
  case False
  then have ok: "key_format_ok k" by simp
  show ?thesis
  proof (cases "select_api_key (h k) w")
    case None
    then show ?thesis by (simp add: validateApiKey_absent [OF ok])
  next
    case (Some d)
    show ?thesis
      by (simp add: validateApiKey_found [where hashApiKey = h and apiKey = k, OF ok Some]
          update_api_keys_def Let_def split: option.split)
  qed
qed

lemma checkRateLimit_logs:
  "api_request_logs (db (snd (checkRateLimit toISOString k p w))) = api_request_logs (db w)"
proof (cases "minuteExceeded (fst (checkRateLimit_select k p w))
              \<or> hourExceeded (fst (checkRateLimit_select k p w))
              \<or> dayExceeded (fst (checkRateLimit_select k p w))")
  case True
  then show ?thesis
    by (simp add: checkRateLimit_unfold checkRateLimit_decide_denied)
next
  case False
  then have "\<not> minuteExceeded (fst (checkRateLimit_select k p w))"
            "\<not> hourExceeded (fst (checkRateLimit_select k p w))"
            "\<not> dayExceeded (fst (checkRateLimit_select k p w))" by simp_all
  then show ?thesis
    by (simp add: checkRateLimit_unfold checkRateLimit_decide_allowed)
qed

lemma submit_stage_logs:
  assumes "api_request_logs (db w1) = api_request_logs (db w)" "requestId ctx = rid"
  shows "case submit_stage env req ctx p h w1 of
           Inr (resp, w') \<Rightarrow> audited w rid resp w'
         | Inl (m, ctx', w') \<Rightarrow>
             api_request_logs (db w') = api_request_logs (db w) \<and> requestId ctx' = rid"
proof (cases "req_json req")
  case None
  then show ?thesis
    using assms by (simp add: submit_stage_def finalizeRequest_audited Let_def)
next
  case (Some parsed)
  obtain ref w2 where alloc:
    "(case parsed of
        JObj props \<Rightarrow> (let (a, w) = new_object props w1 in (Obj a, w))
      | JNull \<Rightarrow> (Null, w1)
      | v \<Rightarrow> (Prim v, w1)) = (ref, w2)"
    by (cases "(case parsed of
        JObj props \<Rightarrow> (let (a, w) = new_object props w1 in (Obj a, w))
      | JNull \<Rightarrow> (Null, w1)
      | v \<Rightarrow> (Prim v, w1))") simp
  have w2: "api_request_logs (db w2) = api_request_logs (db w)"
    using alloc assms(1) by (cases parsed) (auto simp: new_object_def)
  show ?thesis
  proof (cases "env_submitLead env p parsed")
    case (Inl message)
    then show ?thesis
      using Some alloc w2 assms(2) by (simp add: submit_stage_def Let_def)
  next
    case (Inr result)
    then show ?thesis
      using Some alloc w2 assms(2)
      by (simp add: submit_stage_def finalizeRequest_audited Let_def)
  qed
qed


lemma try_block_logs:
  assumes "api_request_logs (db w1) = api_request_logs (db w)" "requestId ctx = rid"
  shows "case try_block env req ctx w1 of
           Inr (resp, w') \<Rightarrow> audited w rid resp w'
         | Inl (m, ctx', w') \<Rightarrow>
             api_request_logs (db w') = api_request_logs (db w) \<and> requestId ctx' = rid"
proof (cases "req_method req \<noteq> ''POST''")
  case True
  then show ?thesis
    using assms by (simp add: try_block_def finalizeRequest_audited Let_def)
next
  case post: False
  show ?thesis
  proof (cases "extractApiKey req")
    case None
    then show ?thesis
      using post assms by (simp add: try_block_def finalizeRequest_audited Let_def)
  next
    case (Some apiKey)
    obtain kv w2 where v: "validateApiKey (env_hashApiKey env) apiKey w1 = (kv, w2)"
      by (cases "validateApiKey (env_hashApiKey env) apiKey w1") simp
    have w2: "api_request_logs (db w2) = api_request_logs (db w)"
      using validateApiKey_logs [of "env_hashApiKey env" apiKey w1] v assms(1) by simp
    show ?thesis
    proof (cases "isValid kv")
      case False
      then show ?thesis
        using post Some v w2 assms(2)
        by (simp add: try_block_def finalizeRequest_audited Let_def)
    next
      case valid: True
      define key where "key = (case result_apiKeyId kv of Some k \<Rightarrow> k | None \<Rightarrow> [])"
      define pro where "pro = (case result_professionalId kv of Some p \<Rightarrow> p | None \<Rightarrow> [])"
      define ctx2 where "ctx2 = ctx\<lparr>ctx_apiKeyId := result_apiKeyId kv,
                                     ctx_professionalId := result_professionalId kv\<rparr>"
      obtain rl w3 where c: "checkRateLimit (env_toISOString env) key pro w2 = (rl, w3)"
        by (cases "checkRateLimit (env_toISOString env) key pro w2") simp
      have w3: "api_request_logs (db w3) = api_request_logs (db w)"
        using checkRateLimit_logs [of "env_toISOString env" key pro w2] c w2 by simp
      have ctx2: "requestId ctx2 = rid"
        using assms(2) by (simp add: ctx2_def)
      show ?thesis
      proof (cases "allowed rl")
        case False
        then show ?thesis
          using post Some v valid c w3 assms(2)
          by (simp add: try_block_def finalizeRequest_audited Let_def key_def pro_def)
      next
        case True
        have "try_block env req ctx w1
                = submit_stage env req ctx2 pro (getRateLimitHeaders rl) w3"
          using post Some v valid c True
          by (simp add: try_block_def Let_def key_def pro_def ctx2_def)
        then show ?thesis
          using submit_stage_logs [OF w3 ctx2] by simp
      qed
    qed
  qed
qed

text \<open>
  Claim C8, as amended. For every request whose method is not \<open>OPTIONS\<close>, once
  the storage client has been constructed, the handler returns a response, and between
  the world it received and the world it returns exactly one audit row has been
  appended, with the identifier of the request and the status and body of the
  response. This holds on every path: method not allowed, missing key, invalid key,
  rate limit denial, invalid JSON, a failure reported by the lead handler, success,
  and an error thrown by the lead handler, which the catch-all logs as
  \<open>internal_error\<close>.
\<close>

theorem handler_audits_exactly_once:
  assumes "req_method req \<noteq> ''OPTIONS''"
      and "env_configured env"
  shows "\<exists>resp w'. handler env req w = Inr (resp, w') \<and> audited w (req_uuid req) resp w'"
proof -
  obtain ctx w1 where c: "createRequestContext req ''/submit-lead-api'' w = (ctx, w1)"
    by (cases "createRequestContext req ''/submit-lead-api'' w") simp
  have w1: "api_request_logs (db w1) = api_request_logs (db w)"
    and ctx: "requestId ctx = req_uuid req"
    using c by (auto simp: createRequestContext_def Date_now_def)
  note tb = try_block_logs [OF w1 ctx, of env req]
  show ?thesis
  proof (cases "try_block env req ctx w1")
    case (Inr out)
    then show ?thesis
      using assms c tb by (cases out) (simp add: handler_def)
  next
    case (Inl thrown)
    obtain m ctx' w2 where t: "thrown = (m, ctx', w2)" by (cases thrown)
    have "api_request_logs (db w2) = api_request_logs (db w)" "requestId ctx' = req_uuid req"
      using tb Inl t by simp_all
    then show ?thesis
      using assms c Inl t
      by (simp add: handler_def finalizeRequest_audited Let_def)
  qed
qed

lemma throwing_request_status:
  "resp_status (fst (projr (handler test_env throwing_request keys_world))) = 500"
proof -
  define w1 where "w1 = keys_world\<lparr>reads := Suc (reads keys_world)\<rparr>"
  define ctx where "ctx = fst (createRequestContext throwing_request ''/submit-lead-api'' keys_world)"
  have c: "createRequestContext throwing_request ''/submit-lead-api'' keys_world = (ctx, w1)"
    by (simp add: ctx_def w1_def createRequestContext_def Date_now_def)
  have sel: "select_api_key (rev good_key) w1 = select_api_key (rev good_key) keys_world"
    by (simp add: select_api_key_def w1_def)
  define kv where "kv = fst (validateApiKey rev good_key w1)"
  define w2 where "w2 = snd (validateApiKey rev good_key w1)"
  have v: "validateApiKey rev good_key w1 = (kv, w2)"
    by (simp add: kv_def w2_def)
  have clk: "clock w1 (reads w1) = 5001"
    by (simp add: w1_def keys_world_def)
  note found = validateApiKey_found
                 [where hashApiKey = rev and apiKey = good_key and w = w1,
                  OF keys_format(1) sel [unfolded keys_world_select(1)]]
  have kv: "isValid kv" "result_apiKeyId kv = Some ''id4''" "result_professionalId kv = Some ''p2''"
    unfolding kv_def found by (simp_all add: clk)
  have tr: "api_rate_limit_tracking (db w2) = []" "api_rate_limit_config (db w2) = []"
    unfolding w2_def found
    by (simp_all add: clk update_api_keys_def) (simp_all add: w1_def keys_world_def)
  define s where "s = fst (checkRateLimit_select ''id4'' ''p2'' w2)"
  have s: "tracking s = None" "config s = DEFAULT_LIMITS"
    unfolding s_def
    by (simp_all add: checkRateLimit_select_eq tracking_rows_def tr single_def
        getRateLimitConfig_def select_config_def)
  have nex: "\<not> minuteExceeded s" "\<not> hourExceeded s" "\<not> dayExceeded s"
    using not_exceeded_without_row [of s] s by (simp_all add: DEFAULT_LIMITS_def)
  define rl where "rl = fst (checkRateLimit String_int ''id4'' ''p2'' w2)"
  define w3 where "w3 = snd (checkRateLimit String_int ''id4'' ''p2'' w2)"
  have r: "checkRateLimit String_int ''id4'' ''p2'' w2 = (rl, w3)"
    by (simp add: rl_def w3_def)
  have al: "allowed rl"
    unfolding rl_def checkRateLimit_unfold s_def [symmetric]
    by (simp add: checkRateLimit_decide_allowed [OF nex])
  have k: "extractApiKey throwing_request = Some good_key"
          "req_method throwing_request = ''POST''"
          "req_json throwing_request
             = Some (JObj [(''client_phone'', JStr ''0501234567''), (''token'', JStr ''x'')])"
    by (simp_all add: extractApiKey_def or_null_def throwing_request_def good_key_def)
  have e: "env_configured test_env" "env_hashApiKey test_env = rev"
          "env_toISOString test_env = String_int"
          "env_submitLead test_env = (\<lambda>professional parsed. Inl ''fetch failed'')"
    by (simp_all add: test_env_def)
  show ?thesis
    by (simp add: handler_def c try_block_def k e v kv r al submit_stage_def
        case_prod_beta Let_def)
qed

theorem handler_audits_exactly_once_witness:
  "req_method no_key_request \<noteq> ''OPTIONS'' \<and> req_method throwing_request \<noteq> ''OPTIONS''
   \<and> env_configured test_env
   \<and> (\<exists>resp w'. handler test_env no_key_request keys_world = Inr (resp, w')
          \<and> audited keys_world (req_uuid no_key_request) resp w'
          \<and> resp_status resp = 401)
   \<and> (\<exists>resp w'. handler test_env throwing_request keys_world = Inr (resp, w')
          \<and> audited keys_world (req_uuid throwing_request) resp w'
          \<and> resp_status resp = 500)"
proof -
  have m: "req_method no_key_request \<noteq> ''OPTIONS''"
    by (simp add: no_key_request_def)
  have m': "req_method throwing_request \<noteq> ''OPTIONS''"
    by (simp add: throwing_request_def)
  have e: "env_configured test_env"
    by (simp add: test_env_def)
  obtain resp w' where h: "handler test_env no_key_request keys_world = Inr (resp, w')"
    and a: "audited keys_world (req_uuid no_key_request) resp w'"
    using handler_audits_exactly_once [OF m e, of keys_world] by blast
  have k: "extractApiKey no_key_request = None" "req_method no_key_request = ''POST''"
    by (simp_all add: extractApiKey_def or_null_def no_key_request_def)
  have "resp_status (fst (projr (handler test_env no_key_request keys_world))) = 401"
    using e by (simp add: handler_def try_block_def k case_prod_beta Let_def)
  then have s: "resp_status resp = 401"
    unfolding h by simp
  obtain resp2 w2 where h2: "handler test_env throwing_request keys_world = Inr (resp2, w2)"
    and a2: "audited keys_world (req_uuid throwing_request) resp2 w2"
    using handler_audits_exactly_once [OF m' e, of keys_world] by blast
  have s2: "resp_status resp2 = 500"
    using throwing_request_status unfolding h2 by simp
  from m m' e h a s h2 a2 s2 show ?thesis by blast
qed

text \<open>
  The claim as stated fails for a preflight request: the handler answers it before it
  creates the request context and returns the world as it received it, with no audit
  row.
\<close>

theorem handler_preflight_counterexample:
  "req_method options_request = ''OPTIONS''
   \<and> handler test_env options_request keys_world
       = Inr (\<lparr>resp_status = 200, resp_headers = [(''Access-Control-Allow-Origin'', ''*'')],
               resp_body = None\<rparr>, keys_world)
   \<and> api_request_logs (db keys_world) = []"
  by (simp add: handler_def options_request_def test_env_def keys_world_def)

end
